theory Spec2Isabelle
  imports Complex_Main
begin

section \<open>Python floats\<close>

text \<open>
  The calculator of \<^verbatim>\<open>app.py\<close> works on Python floats. A float is modelled as an exact
  real number or one of the three special values; arithmetic on finite values is exact
  (no binary rounding, no overflow, no signed zero), and the special values follow
  IEEE 754 as Python exposes it. Division by a zero divisor raises
  \<^verbatim>\<open>ZeroDivisionError\<close> whatever the dividend is.
\<close>

datatype pyfloat = Fin real | PInf | NInf | NaN

datatype py_exception = ZeroDivisionError

fun fneg :: "pyfloat \<Rightarrow> pyfloat" where
  "fneg (Fin x) = Fin (- x)"
| "fneg PInf = NInf"
| "fneg NInf = PInf"
| "fneg NaN = NaN"

fun fabs :: "pyfloat \<Rightarrow> pyfloat" where
  "fabs (Fin x) = Fin \<bar>x\<bar>"
| "fabs PInf = PInf"
| "fabs NInf = PInf"
| "fabs NaN = NaN"

fun fadd :: "pyfloat \<Rightarrow> pyfloat \<Rightarrow> pyfloat" where
  "fadd (Fin x) (Fin y) = Fin (x + y)"
| "fadd NaN _ = NaN"
| "fadd _ NaN = NaN"
| "fadd PInf NInf = NaN"
| "fadd NInf PInf = NaN"
| "fadd PInf _ = PInf"
| "fadd NInf _ = NInf"
| "fadd _ PInf = PInf"
| "fadd _ NInf = NInf"

definition fsub :: "pyfloat \<Rightarrow> pyfloat \<Rightarrow> pyfloat" where
  "fsub a b = fadd a (fneg b)"

text \<open>The sign of an infinite product or quotient: \<open>inf_of True\<close> is \<open>+\<infinity>\<close>.\<close>

definition inf_of :: "bool \<Rightarrow> pyfloat" where
  "inf_of pos = (if pos then PInf else NInf)"

fun fmul :: "pyfloat \<Rightarrow> pyfloat \<Rightarrow> pyfloat" where
  "fmul (Fin x) (Fin y) = Fin (x * y)"
| "fmul NaN _ = NaN"
| "fmul _ NaN = NaN"
| "fmul (Fin x) PInf = (if x = 0 then NaN else inf_of (0 < x))"
| "fmul (Fin x) NInf = (if x = 0 then NaN else inf_of (x < 0))"
| "fmul PInf (Fin y) = (if y = 0 then NaN else inf_of (0 < y))"
| "fmul NInf (Fin y) = (if y = 0 then NaN else inf_of (y < 0))"
| "fmul PInf PInf = PInf"
| "fmul PInf NInf = NInf"
| "fmul NInf PInf = NInf"
| "fmul NInf NInf = PInf"

text \<open>The quotient where the divisor is not zero.\<close>

fun fquot :: "pyfloat \<Rightarrow> pyfloat \<Rightarrow> pyfloat" where
  "fquot (Fin x) (Fin y) = Fin (x / y)"
| "fquot NaN _ = NaN"
| "fquot _ NaN = NaN"
| "fquot (Fin x) PInf = Fin 0"
| "fquot (Fin x) NInf = Fin 0"
| "fquot PInf (Fin y) = inf_of (0 < y)"
| "fquot NInf (Fin y) = inf_of (y < 0)"
| "fquot PInf PInf = NaN"
| "fquot PInf NInf = NaN"
| "fquot NInf PInf = NaN"
| "fquot NInf NInf = NaN"

definition fdiv :: "pyfloat \<Rightarrow> pyfloat \<Rightarrow> py_exception + pyfloat" where
  "fdiv a b = (if b = Fin 0 then Inl ZeroDivisionError else Inr (fquot a b))"

fun flt :: "pyfloat \<Rightarrow> pyfloat \<Rightarrow> bool" where
  "flt (Fin x) (Fin y) = (x < y)"
| "flt NaN _ = False"
| "flt _ NaN = False"
| "flt NInf NInf = False"
| "flt NInf _ = True"
| "flt PInf _ = False"
| "flt (Fin x) PInf = True"
| "flt (Fin x) NInf = False"

fun feq :: "pyfloat \<Rightarrow> pyfloat \<Rightarrow> bool" where
  "feq NaN _ = False"
| "feq _ NaN = False"
| "feq a b = (a = b)"

definition fgt :: "pyfloat \<Rightarrow> pyfloat \<Rightarrow> bool" where
  "fgt a b = flt b a"

definition fle :: "pyfloat \<Rightarrow> pyfloat \<Rightarrow> bool" where
  "fle a b = (flt a b \<or> feq a b)"

definition fge :: "pyfloat \<Rightarrow> pyfloat \<Rightarrow> bool" where
  "fge a b = fle b a"

fun isinf :: "pyfloat \<Rightarrow> bool" where
  "isinf PInf = True"
| "isinf NInf = True"
| "isinf _ = False"

text \<open>
  \<^verbatim>\<open>round(x, 3)\<close>: the nearest multiple of one thousandth, a tie going to the even
  multiple; infinities and NaN are returned as they are.
\<close>

definition round_half_even :: "real \<Rightarrow> int" where
  "round_half_even x =
     (let fl = \<lfloor>x\<rfloor>; d = x - of_int fl
      in if d < 1 / 2 then fl
         else if 1 / 2 < d then fl + 1
         else if even fl then fl else fl + 1)"

fun py_round3 :: "pyfloat \<Rightarrow> pyfloat" where
  "py_round3 (Fin x) = Fin (of_int (round_half_even (x * 1000)) / 1000)"
| "py_round3 a = a"

section \<open>The calculator object\<close>

text \<open>
  The dictionary \<^verbatim>\<open>image_characteristics\<close>; its entry \<^verbatim>\<open>magnification\<close> is a
  rounded number or the string \<open>\<infinity>\<close>.
\<close>

datatype magnification_value = MagNumber pyfloat | MagInfinite

record image_chars =
  nature :: string
  orientation :: string
  size_of :: string
  magnification :: magnification_value

text \<open>
  The fields of \<^verbatim>\<open>OpticsCalculator\<close>. The attribute \<^verbatim>\<open>image_characteristics\<close>
  does not exist until \<^verbatim>\<open>_analyze_image_characteristics\<close> assigns it.
\<close>

record calc =
  focal_length :: "pyfloat option"
  u :: "pyfloat option"
  v :: "pyfloat option"
  h1 :: "pyfloat option"
  h2 :: "pyfloat option"
  errors :: "string list"
  warnings :: "string list"
  image_characteristics :: "image_chars option"

text \<open>
  The dictionary \<^verbatim>\<open>inputs\<close> that the route builds: the keys present hold floats, so
  the \<^verbatim>\<open>float(...)\<close> conversions of \<^verbatim>\<open>validate_inputs\<close> cannot fail on it.
\<close>

type_synonym inputs = "string \<rightharpoonup> pyfloat"

definition new_calculator :: calc where
  "new_calculator =
     \<lparr>focal_length = None, u = None, v = None, h1 = None, h2 = None,
      errors = [], warnings = [], image_characteristics = None\<rparr>"

text \<open>\<^verbatim>\<open>not x\<close> for a JSON string or null.\<close>

definition py_not :: "string option \<Rightarrow> bool" where
  "py_not x = (x = None \<or> x = Some [])"

definition py_str :: "string option \<Rightarrow> string" where
  "py_str x = (case x of None \<Rightarrow> ''None'' | Some s \<Rightarrow> s)"

definition add_error :: "string \<Rightarrow> calc \<Rightarrow> calc" where
  "add_error msg c = c\<lparr>errors := errors c @ [msg]\<rparr>"

definition add_warning :: "string \<Rightarrow> calc \<Rightarrow> calc" where
  "add_warning msg c = c\<lparr>warnings := warnings c @ [msg]\<rparr>"

section \<open>validate_inputs\<close>

definition check_focal_length :: "inputs \<Rightarrow> string option \<Rightarrow> string option \<Rightarrow> calc \<Rightarrow> calc" where
  "check_focal_length data optic_type shape c =
     (case data ''focal_length'' of
        None \<Rightarrow> c
      | Some f \<Rightarrow>
          if feq f (Fin 0) then add_error ''Focal length cannot be zero'' c
          else if optic_type = Some ''mirror'' then
            (if fle f (Fin 0)
             then add_warning
                    (''Using absolute value of focal length for '' @ py_str shape @ '' mirror'') c
             else c)
          else if shape = Some ''convex'' \<and> fle f (Fin 0)
            then add_warning ''Convex lens focal length should be positive'' c
          else if shape = Some ''concave'' \<and> fge f (Fin 0)
            then add_warning ''Concave lens focal length should be negative'' c
          else c)"

definition check_u :: "inputs \<Rightarrow> calc \<Rightarrow> calc" where
  "check_u data c =
     (case data ''u'' of
        None \<Rightarrow> c
      | Some x \<Rightarrow>
          if fge x (Fin 0)
          then add_error ''Object distance (u) must be negative (object is on the left side)'' c
          else c)"

definition check_h1 :: "inputs \<Rightarrow> calc \<Rightarrow> calc" where
  "check_h1 data c =
     (case data ''h1'' of
        None \<Rightarrow> c
      | Some x \<Rightarrow>
          if fle x (Fin 0) then add_error ''Object height (h1) must be positive'' c else c)"

definition given_values :: "inputs \<Rightarrow> nat" where
  "given_values data =
     length (filter (\<lambda>key. data key \<noteq> None) [''focal_length'', ''u'', ''v'', ''h1'', ''h2''])"

definition check_count :: "inputs \<Rightarrow> calc \<Rightarrow> calc" where
  "check_count data c =
     (if given_values data < 2
      then add_error ''At least 2 parameters must be provided for calculation'' c
      else c)"

text \<open>
  The loop over \<^verbatim>\<open>v\<close> and \<^verbatim>\<open>h2\<close> only converts them to float, which succeeds on
  the route's dictionary, so it adds nothing. The result is the returned flag and the
  calculator with its two message lists.
\<close>

definition validate_inputs ::
  "calc \<Rightarrow> inputs \<Rightarrow> string option \<Rightarrow> string option \<Rightarrow> bool \<times> calc" where
  "validate_inputs c0 data optic_type shape =
     (let c = c0\<lparr>errors := [], warnings := []\<rparr>
      in if py_not optic_type \<or> py_not shape
         then (False, add_error ''Please select both optic type and shape'' c)
         else
           (let c' = check_count data
                       (check_h1 data (check_u data (check_focal_length data optic_type shape c)))
            in (errors c' = [], c')))"

section \<open>The calculations\<close>

text \<open>
  A statement of a \<^verbatim>\<open>try\<close> block either raises, leaving the calculator as it was when
  the exception was raised, or finishes with the updated calculator.
\<close>

type_synonym outcome = "(py_exception \<times> calc) + calc"

definition try_eval :: "calc \<Rightarrow> py_exception + pyfloat \<Rightarrow> (pyfloat \<Rightarrow> outcome) \<Rightarrow> outcome" where
  "try_eval c r k = (case r of Inl e \<Rightarrow> Inl (e, c) | Inr q \<Rightarrow> k q)"

definition and_then :: "outcome \<Rightarrow> (calc \<Rightarrow> outcome) \<Rightarrow> outcome" where
  "and_then r k = (case r of Inl e \<Rightarrow> Inl e | Inr c \<Rightarrow> k c)"

definition exception_message :: "py_exception \<Rightarrow> string" where
  "exception_message e = (case e of ZeroDivisionError \<Rightarrow> ''float division by zero'')"

definition eps :: pyfloat where
  "eps = Fin (1 / 1000000)"

definition load_values :: "inputs \<Rightarrow> calc \<Rightarrow> calc" where
  "load_values data c =
     c\<lparr>focal_length := data ''focal_length'', u := data ''u'', v := data ''v'',
       h1 := data ''h1'', h2 := data ''h2''\<rparr>"

subsection \<open>calculate_mirror\<close>

text \<open>Lines 104-109: the sign convention applied to a supplied focal length.\<close>

definition mirror_sign :: "string option \<Rightarrow> pyfloat \<Rightarrow> pyfloat" where
  "mirror_sign shape f =
     (if shape = Some ''concave'' \<and> fgt f (Fin 0) then fneg (fabs f)
      else if shape = Some ''convex'' \<and> flt f (Fin 0) then fabs f
      else f)"

definition mirror_sign_convention :: "string option \<Rightarrow> calc \<Rightarrow> calc" where
  "mirror_sign_convention shape c =
     (case focal_length c of
        None \<Rightarrow> c
      | Some f \<Rightarrow> c\<lparr>focal_length := Some (mirror_sign shape f)\<rparr>)"

text \<open>Lines 115-135: the mirror formula, one of three derivations.\<close>

definition mirror_distances :: "calc \<Rightarrow> outcome" where
  "mirror_distances c =
     (case (focal_length c, u c, v c) of
        (None, Some uu, Some vv) \<Rightarrow>
          try_eval c (fdiv (fmul uu vv) (fadd uu vv))
            (\<lambda>q. Inr (c\<lparr>focal_length := Some q\<rparr>))
      | (Some f, Some uu, None) \<Rightarrow>
          if flt (fabs (fsub uu f)) eps
          then Inr (add_error
                 ''Object at focal point - image formed at infinity (parallel rays)''
                 (c\<lparr>v := Some (if flt f (Fin 0) then PInf else NInf)\<rparr>))
          else try_eval c (fdiv (fmul f uu) (fsub uu f)) (\<lambda>q. Inr (c\<lparr>v := Some q\<rparr>))
      | (Some f, None, Some vv) \<Rightarrow>
          if flt (fabs (fsub vv f)) eps
          then Inr (add_error ''Image at focal point - object would be at infinity''
                 (c\<lparr>u := Some (if flt f (Fin 0) then PInf else NInf)\<rparr>))
          else try_eval c (fdiv (fmul f vv) (fsub vv f)) (\<lambda>q. Inr (c\<lparr>u := Some q\<rparr>))
      | _ \<Rightarrow> Inr c)"

text \<open>Lines 137-144: a missing height from the magnification \<open>-v/u\<close>.\<close>

definition mirror_magnification :: "calc \<Rightarrow> outcome" where
  "mirror_magnification c =
     (case (u c, v c) of
        (Some uu, Some vv) \<Rightarrow>
          try_eval c (fdiv (fneg vv) uu)
            (\<lambda>m. case (h1 c, h2 c) of
                    (Some a, None) \<Rightarrow> Inr (c\<lparr>h2 := Some (fmul m a)\<rparr>)
                  | (None, Some b) \<Rightarrow> try_eval c (fdiv b m) (\<lambda>q. Inr (c\<lparr>h1 := Some q\<rparr>))
                  | _ \<Rightarrow> Inr c)
      | _ \<Rightarrow> Inr c)"

text \<open>Lines 146-153: a missing distance from the two heights.\<close>

definition mirror_heights :: "calc \<Rightarrow> outcome" where
  "mirror_heights c =
     (case (h1 c, h2 c) of
        (Some a, Some b) \<Rightarrow>
          try_eval c (fdiv b a)
            (\<lambda>m. case (u c, v c) of
                    (Some uu, None) \<Rightarrow> Inr (c\<lparr>v := Some (fmul (fneg m) uu)\<rparr>)
                  | (None, Some vv) \<Rightarrow>
                      try_eval c (fdiv (fneg vv) m) (\<lambda>q. Inr (c\<lparr>u := Some q\<rparr>))
                  | _ \<Rightarrow> Inr c)
      | _ \<Rightarrow> Inr c)"

text \<open>Lines 155-159: the default object height.\<close>

definition mirror_default_height :: "calc \<Rightarrow> outcome" where
  "mirror_default_height c =
     (case (h1 c, focal_length c) of
        (None, Some f) \<Rightarrow>
          (let a = fmul (fabs f) (Fin (3 / 10)); c1 = c\<lparr>h1 := Some a\<rparr>
           in case (u c1, v c1) of
                (Some uu, Some vv) \<Rightarrow>
                  try_eval c1 (fdiv vv uu) (\<lambda>q. Inr (c1\<lparr>h2 := Some (fmul (fneg q) a)\<rparr>))
              | _ \<Rightarrow> Inr c1)
      | _ \<Rightarrow> Inr c)"

subsection \<open>calculate_lens\<close>

text \<open>Lines 186-206.\<close>

definition lens_distances :: "calc \<Rightarrow> outcome" where
  "lens_distances c =
     (case (focal_length c, u c, v c) of
        (None, Some uu, Some vv) \<Rightarrow>
          try_eval c (fdiv (fmul uu vv) (fsub vv uu))
            (\<lambda>q. Inr (c\<lparr>focal_length := Some q\<rparr>))
      | (Some f, Some uu, None) \<Rightarrow>
          if flt (fabs (fadd uu f)) eps
          then Inr (add_error
                 ''Object at focal point - image formed at infinity (parallel rays)''
                 (c\<lparr>v := Some (if fgt f (Fin 0) then PInf else NInf)\<rparr>))
          else try_eval c (fdiv (fmul f uu) (fadd uu f)) (\<lambda>q. Inr (c\<lparr>v := Some q\<rparr>))
      | (Some f, None, Some vv) \<Rightarrow>
          if flt (fabs (fsub vv f)) eps
          then Inr (add_error ''Image at focal point - object would be at infinity''
                 (c\<lparr>u := Some (if fgt f (Fin 0) then PInf else NInf)\<rparr>))
          else try_eval c (fdiv (fmul f vv) (fsub vv f)) (\<lambda>q. Inr (c\<lparr>u := Some q\<rparr>))
      | _ \<Rightarrow> Inr c)"

text \<open>Lines 208-215.\<close>

definition lens_magnification :: "calc \<Rightarrow> outcome" where
  "lens_magnification c =
     (case (u c, v c) of
        (Some uu, Some vv) \<Rightarrow>
          try_eval c (fdiv vv uu)
            (\<lambda>m. case (h1 c, h2 c) of
                    (Some a, None) \<Rightarrow> Inr (c\<lparr>h2 := Some (fmul m a)\<rparr>)
                  | (None, Some b) \<Rightarrow> try_eval c (fdiv b m) (\<lambda>q. Inr (c\<lparr>h1 := Some q\<rparr>))
                  | _ \<Rightarrow> Inr c)
      | _ \<Rightarrow> Inr c)"

text \<open>Lines 217-224.\<close>

definition lens_heights :: "calc \<Rightarrow> outcome" where
  "lens_heights c =
     (case (h1 c, h2 c) of
        (Some a, Some b) \<Rightarrow>
          try_eval c (fdiv b a)
            (\<lambda>m. case (u c, v c) of
                    (Some uu, None) \<Rightarrow> Inr (c\<lparr>v := Some (fmul m uu)\<rparr>)
                  | (None, Some vv) \<Rightarrow> try_eval c (fdiv vv m) (\<lambda>q. Inr (c\<lparr>u := Some q\<rparr>))
                  | _ \<Rightarrow> Inr c)
      | _ \<Rightarrow> Inr c)"

text \<open>Lines 226-230.\<close>

definition lens_default_height :: "calc \<Rightarrow> outcome" where
  "lens_default_height c =
     (case (h1 c, focal_length c) of
        (None, Some f) \<Rightarrow>
          (let a = fmul (fabs f) (Fin (3 / 10)); c1 = c\<lparr>h1 := Some a\<rparr>
           in case (u c1, v c1) of
                (Some uu, Some vv) \<Rightarrow>
                  try_eval c1 (fdiv vv uu) (\<lambda>q. Inr (c1\<lparr>h2 := Some (fmul q a)\<rparr>))
              | _ \<Rightarrow> Inr c1)
      | _ \<Rightarrow> Inr c)"

subsection \<open>Rounding and image characteristics\<close>

definition round_value :: "pyfloat \<Rightarrow> pyfloat" where
  "round_value x = (if isinf x then x else py_round3 x)"

definition round_values :: "calc \<Rightarrow> calc" where
  "round_values c =
     c\<lparr>focal_length := map_option round_value (focal_length c),
       u := map_option round_value (u c),
       v := map_option round_value (v c),
       h1 := map_option round_value (h1 c),
       h2 := map_option round_value (h2 c)\<rparr>"

definition infinite_image :: image_chars where
  "infinite_image =
     \<lparr>nature = ''Image at infinity'', orientation = ''Parallel rays'',
      size_of = ''Infinite'', magnification = MagInfinite\<rparr>"

definition analyze_image_characteristics :: "string \<Rightarrow> calc \<Rightarrow> outcome" where
  "analyze_image_characteristics optic_type c =
     (case (u c, v c, h1 c, h2 c) of
        (Some uu, Some vv, Some a, Some b) \<Rightarrow>
          if isinf vv \<or> isinf uu
          then Inr (c\<lparr>image_characteristics := Some infinite_image\<rparr>)
          else
            (let finish = (\<lambda>m. Inr (c\<lparr>image_characteristics := Some
                   \<lparr>nature =
                      (if optic_type = ''mirror''
                       then (if flt vv (Fin 0) then ''Real'' else ''Virtual'')
                       else (if fgt vv (Fin 0) then ''Real'' else ''Virtual'')),
                    orientation =
                      (if fgt (fmul b a) (Fin 0) then ''Erect'' else ''Inverted''),
                    size_of =
                      (if fgt m (Fin 1) then ''Magnified''
                       else if flt m (Fin 1) then ''Diminished''
                       else ''Same size''),
                    magnification = MagNumber (py_round3 m)\<rparr>\<rparr>))
             in if \<not> feq a (Fin 0)
                then try_eval c (fdiv b a) (\<lambda>q. finish (fabs q))
                else finish (Fin 0))
      | _ \<Rightarrow> Inr c)"

text \<open>The statements of the \<^verbatim>\<open>try\<close> block that come before \<^verbatim>\<open>_round_values\<close>.\<close>

definition mirror_solve :: "calc \<Rightarrow> outcome" where
  "mirror_solve c =
     and_then (and_then (and_then (mirror_distances c) mirror_magnification) mirror_heights)
       mirror_default_height"

definition lens_solve :: "calc \<Rightarrow> outcome" where
  "lens_solve c =
     and_then (and_then (and_then (lens_distances c) lens_magnification) lens_heights)
       lens_default_height"

definition finish_try :: "outcome \<Rightarrow> bool \<times> calc" where
  "finish_try r =
     (case r of
        Inl (e, c) \<Rightarrow> (False, add_error (''Calculation error: '' @ exception_message e) c)
      | Inr c \<Rightarrow> (True, c))"

definition calculate_mirror :: "calc \<Rightarrow> inputs \<Rightarrow> string option \<Rightarrow> bool \<times> calc" where
  "calculate_mirror c data shape =
     finish_try
       (and_then (mirror_solve (mirror_sign_convention shape (load_values data c)))
          (\<lambda>c'. analyze_image_characteristics ''mirror'' (round_values c')))"

definition calculate_lens :: "calc \<Rightarrow> inputs \<Rightarrow> string option \<Rightarrow> bool \<times> calc" where
  "calculate_lens c data shape =
     finish_try
       (and_then (lens_solve (load_values data c))
          (\<lambda>c'. analyze_image_characteristics ''lens'' (round_values c')))"

section \<open>The route\<close>

text \<open>
  \<^verbatim>\<open>safe_value\<close> turns an infinite value into the string \<open>\<infinity>\<close> or \<open>-\<infinity>\<close>, here the
  constructors \<open>JInfinity\<close> and \<open>JMinusInfinity\<close>.
\<close>

datatype json_value = JNull | JNumber pyfloat | JInfinity | JMinusInfinity

definition safe_value :: "pyfloat option \<Rightarrow> json_value" where
  "safe_value val =
     (case val of
        None \<Rightarrow> JNull
      | Some x \<Rightarrow>
          if isinf x then (if fgt x (Fin 0) then JInfinity else JMinusInfinity)
          else JNumber x)"

record results =
  r_focal_length :: json_value
  r_u :: json_value
  r_v :: json_value
  r_h1 :: json_value
  r_h2 :: json_value

text \<open>
  The JSON response, without the diagram: \<open>Success\<close> carries \<^verbatim>\<open>results\<close>,
  \<^verbatim>\<open>image_characteristics\<close> (when the attribute exists) and \<^verbatim>\<open>warnings\<close>;
  \<open>Failure\<close> carries \<^verbatim>\<open>errors\<close>.
\<close>

datatype response =
  Success results "image_chars option" "string list"
| Failure "string list"

text \<open>
  The route from the dictionary \<^verbatim>\<open>inputs\<close> on (lines 692-743). The diagram is drawn
  from the finished calculator and changes none of its fields.
\<close>

definition calculate :: "string option \<Rightarrow> string option \<Rightarrow> inputs \<Rightarrow> response" where
  "calculate optic_type shape data =
     (case validate_inputs new_calculator data optic_type shape of
        (False, c) \<Rightarrow> Failure (errors c)
      | (True, c) \<Rightarrow>
          (case (if optic_type = Some ''mirror'' then calculate_mirror c data shape
                 else calculate_lens c data shape) of
             (False, c') \<Rightarrow> Failure (errors c')
           | (True, c') \<Rightarrow>
               Success
                 \<lparr>r_focal_length = safe_value (focal_length c'), r_u = safe_value (u c'),
                  r_v = safe_value (v c'), r_h1 = safe_value (h1 c'),
                  r_h2 = safe_value (h2 c')\<rparr>
                 (image_characteristics c') (warnings c')))"

section \<open>Notions used in the statements\<close>

text \<open>The calculator an outcome ends in, whether the statement raised or not.\<close>

definition outcome_state :: "outcome \<Rightarrow> calc" where
  "outcome_state r = (case r of Inl (e, c) \<Rightarrow> c | Inr c \<Rightarrow> c)"

text \<open>Every value present in the first calculator is the same in the second.\<close>

definition keeps :: "calc \<Rightarrow> calc \<Rightarrow> bool" where
  "keeps c c' \<longleftrightarrow>
     (\<forall>x. focal_length c = Some x \<longrightarrow> focal_length c' = Some x) \<and>
     (\<forall>x. u c = Some x \<longrightarrow> u c' = Some x) \<and>
     (\<forall>x. v c = Some x \<longrightarrow> v c' = Some x) \<and>
     (\<forall>x. h1 c = Some x \<longrightarrow> h1 c' = Some x) \<and>
     (\<forall>x. h2 c = Some x \<longrightarrow> h2 c' = Some x) \<and>
     warnings c' = warnings c"

text \<open>
  What holds between the magnification step and the default height: an image height
  without an object height is only left where a distance is still unknown.
\<close>

definition heights_inv :: "calc \<Rightarrow> bool" where
  "heights_inv c \<longleftrightarrow> (h1 c = None \<and> u c \<noteq> None \<and> v c \<noteq> None \<longrightarrow> h2 c = None)"

text \<open>The five values of a calculator as an input dictionary, for a second run.\<close>

definition measurements :: "calc \<Rightarrow> inputs" where
  "measurements c =
     (\<lambda>key. if key = ''focal_length'' then focal_length c
            else if key = ''u'' then u c
            else if key = ''v'' then v c
            else if key = ''h1'' then h1 c
            else if key = ''h2'' then h2 c
            else None)"

text \<open>
  What a calculation leaves in the calculator for a value \<open>x\<close> it holds before
  \<^verbatim>\<open>_round_values\<close>: the rounded value when it succeeded, \<open>x\<close> itself when it raised.
\<close>

definition reported :: "bool \<times> calc \<Rightarrow> pyfloat \<Rightarrow> pyfloat" where
  "reported R x = (if fst R then round_value x else x)"

section \<open>Evaluation and basic facts\<close>

lemmas float_defs = fdiv_def fsub_def fgt_def fle_def fge_def inf_of_def eps_def
  round_half_even_def round_value_def

lemmas validate_defs = validate_inputs_def new_calculator_def py_not_def py_str_def
  check_count_def check_h1_def check_u_def check_focal_length_def given_values_def
  add_warning_def add_error_def

lemmas mirror_defs = calculate_mirror_def load_values_def mirror_sign_convention_def
  mirror_sign_def mirror_solve_def mirror_distances_def mirror_magnification_def
  mirror_heights_def mirror_default_height_def

lemmas lens_defs = calculate_lens_def load_values_def lens_solve_def lens_distances_def
  lens_magnification_def lens_heights_def lens_default_height_def

lemmas finish_defs = and_then_def try_eval_def finish_try_def exception_message_def
  round_values_def analyze_image_characteristics_def infinite_image_def safe_value_def
  add_error_def

lemma and_then_simps [simp]:
  "and_then (Inr c) k = k c" "and_then (Inl e) k = Inl e"
  by (simp_all add: and_then_def)

lemma try_eval_fdiv:
  "try_eval c (fdiv a b) k = (if b = Fin 0 then Inl (ZeroDivisionError, c) else k (fquot a b))"
  by (simp add: try_eval_def fdiv_def)

lemma outcome_state_simps [simp]:
  "outcome_state (Inr c) = c" "outcome_state (Inl (e, c)) = c"
  by (simp_all add: outcome_state_def)

section \<open>The worked scenario\<close>

text \<open>
  Claim C7. A concave mirror with \<open>f = -50\<close> and \<open>u = -20\<close> and nothing else supplied:
  the route answers with success, the values \<open>f = -50\<close>, \<open>u = -20\<close>, \<open>v = 33.333\<close>,
  \<open>h1 = 15\<close>, \<open>h2 = 25\<close>, and the image is virtual, erect and magnified (magnification
  \<open>1.667\<close>). The negative focal length also draws the mirror warning of the validator.
\<close>

theorem concave_mirror_scenario:
  "calculate (Some ''mirror'') (Some ''concave'')
     [''focal_length'' \<mapsto> Fin (- 50), ''u'' \<mapsto> Fin (- 20)]
   = Success
       \<lparr>r_focal_length = JNumber (Fin (- 50)), r_u = JNumber (Fin (- 20)),
        r_v = JNumber (Fin (33333 / 1000)), r_h1 = JNumber (Fin 15),
        r_h2 = JNumber (Fin 25)\<rparr>
       (Some \<lparr>nature = ''Virtual'', orientation = ''Erect'', size_of = ''Magnified'',
              magnification = MagNumber (Fin (1667 / 1000))\<rparr>)
       [''Using absolute value of focal length for concave mirror'']"
  by (simp add: calculate_def float_defs validate_defs mirror_defs finish_defs Let_def)

section \<open>Facts about the steps\<close>

lemma keeps_refl [simp]: "keeps c c"
  by (simp add: keeps_def)

lemma keeps_trans: "keeps a b \<Longrightarrow> keeps b c \<Longrightarrow> keeps a c"
  by (simp add: keeps_def)

lemma analyze_never_raises: "\<exists>c'. analyze_image_characteristics ot c = Inr c'"
  unfolding analyze_image_characteristics_def
  by (simp add: try_eval_fdiv Let_def split: option.splits)

lemma analyze_values:
  assumes "analyze_image_characteristics ot c = Inr c'"
  shows "focal_length c' = focal_length c \<and> u c' = u c \<and> v c' = v c \<and> h1 c' = h1 c \<and>
         h2 c' = h2 c \<and> errors c' = errors c \<and> warnings c' = warnings c"
  using assms unfolding analyze_image_characteristics_def
  by (auto simp: try_eval_fdiv Let_def split: option.splits if_splits)

lemma analyze_fields [simp]:
  "focal_length (outcome_state (analyze_image_characteristics ot c)) = focal_length c"
  "u (outcome_state (analyze_image_characteristics ot c)) = u c"
  "v (outcome_state (analyze_image_characteristics ot c)) = v c"
  "h1 (outcome_state (analyze_image_characteristics ot c)) = h1 c"
  "h2 (outcome_state (analyze_image_characteristics ot c)) = h2 c"
  "errors (outcome_state (analyze_image_characteristics ot c)) = errors c"
  "warnings (outcome_state (analyze_image_characteristics ot c)) = warnings c"
  using analyze_never_raises [of ot c] analyze_values [of ot c] by auto

lemma round_values_fields [simp]:
  "focal_length (round_values c) = map_option round_value (focal_length c)"
  "u (round_values c) = map_option round_value (u c)"
  "v (round_values c) = map_option round_value (v c)"
  "h1 (round_values c) = map_option round_value (h1 c)"
  "h2 (round_values c) = map_option round_value (h2 c)"
  "errors (round_values c) = errors c"
  "warnings (round_values c) = warnings c"
  by (simp_all add: round_values_def)

lemma add_error_fields [simp]:
  "focal_length (add_error m c) = focal_length c"
  "u (add_error m c) = u c"
  "v (add_error m c) = v c"
  "h1 (add_error m c) = h1 c"
  "h2 (add_error m c) = h2 c"
  "errors (add_error m c) = errors c @ [m]"
  "warnings (add_error m c) = warnings c"
  by (simp_all add: add_error_def)

text \<open>The two results of a calculation, from the outcome of its solving steps.\<close>

lemma finish_try_cases:
  "finish_try (and_then r (\<lambda>c'. analyze_image_characteristics ot (round_values c'))) =
     (case r of
        Inl (e, c') \<Rightarrow> (False, add_error (''Calculation error: '' @ exception_message e) c')
      | Inr c' \<Rightarrow> (True, outcome_state (analyze_image_characteristics ot (round_values c'))))"
proof (cases r)
  case (Inl p)
  then show ?thesis by (cases p) (simp add: finish_try_def)
next
  case (Inr c')
  obtain c'' where "analyze_image_characteristics ot (round_values c') = Inr c''"
    using analyze_never_raises by blast
  with Inr show ?thesis by (simp add: finish_try_def)
qed

lemma calculate_mirror_cases:
  "calculate_mirror c data shape =
     (case mirror_solve (mirror_sign_convention shape (load_values data c)) of
        Inl (e, c') \<Rightarrow> (False, add_error (''Calculation error: '' @ exception_message e) c')
      | Inr c' \<Rightarrow> (True, outcome_state (analyze_image_characteristics ''mirror'' (round_values c'))))"
  unfolding calculate_mirror_def by (rule finish_try_cases)

lemma calculate_lens_cases:
  "calculate_lens c data shape =
     (case lens_solve (load_values data c) of
        Inl (e, c') \<Rightarrow> (False, add_error (''Calculation error: '' @ exception_message e) c')
      | Inr c' \<Rightarrow> (True, outcome_state (analyze_image_characteristics ''lens'' (round_values c'))))"
  unfolding calculate_lens_def by (rule finish_try_cases)

subsection \<open>Values that are present stay\<close>

lemma keeps_mirror_distances: "keeps c (outcome_state (mirror_distances c))"
  by (auto simp: mirror_distances_def keeps_def try_eval_fdiv add_error_def split: option.splits)

lemma keeps_mirror_magnification: "keeps c (outcome_state (mirror_magnification c))"
  by (auto simp: mirror_magnification_def keeps_def try_eval_fdiv split: option.splits)

lemma keeps_mirror_heights: "keeps c (outcome_state (mirror_heights c))"
  by (auto simp: mirror_heights_def keeps_def try_eval_fdiv split: option.splits)

lemma keeps_mirror_default_height:
  "heights_inv c \<Longrightarrow> keeps c (outcome_state (mirror_default_height c))"
  by (auto simp: mirror_default_height_def keeps_def heights_inv_def try_eval_fdiv Let_def
      split: option.splits)

lemma inv_mirror_magnification: "mirror_magnification c = Inr c' \<Longrightarrow> heights_inv c'"
  by (auto simp: mirror_magnification_def heights_inv_def try_eval_fdiv
      split: option.splits if_splits)

lemma inv_mirror_heights: "mirror_heights c = Inr c' \<Longrightarrow> heights_inv c \<Longrightarrow> heights_inv c'"
  by (auto simp: mirror_heights_def heights_inv_def try_eval_fdiv split: option.splits if_splits)

lemma keeps_mirror_rest:
  "keeps c (outcome_state
     (and_then (and_then (mirror_magnification c) mirror_heights) mirror_default_height))"
proof (cases "mirror_magnification c")
  case (Inl p)
  with keeps_mirror_magnification [of c] show ?thesis by simp
next
  case m: (Inr c2)
  with keeps_mirror_magnification [of c] have k2: "keeps c c2" by simp
  from m have i2: "heights_inv c2" by (rule inv_mirror_magnification)
  show ?thesis
  proof (cases "mirror_heights c2")
    case (Inl p)
    with keeps_mirror_heights [of c2] k2 m show ?thesis
      by (auto intro: keeps_trans)
  next
    case h: (Inr c3)
    with keeps_mirror_heights [of c2] k2 have k3: "keeps c c3"
      by (auto intro: keeps_trans)
    from h i2 have "heights_inv c3" by (rule inv_mirror_heights)
    then have "keeps c3 (outcome_state (mirror_default_height c3))"
      by (rule keeps_mirror_default_height)
    with k3 m h show ?thesis
      by (auto intro: keeps_trans)
  qed
qed

lemma keeps_mirror_solve: "keeps c (outcome_state (mirror_solve c))"
proof (cases "mirror_distances c")
  case (Inl p)
  with keeps_mirror_distances [of c] show ?thesis
    by (simp add: mirror_solve_def)
next
  case (Inr c1)
  with keeps_mirror_distances [of c] keeps_mirror_rest [of c1] show ?thesis
    by (auto simp: mirror_solve_def intro: keeps_trans)
qed

lemma keeps_lens_distances: "keeps c (outcome_state (lens_distances c))"
  by (auto simp: lens_distances_def keeps_def try_eval_fdiv add_error_def split: option.splits)

lemma keeps_lens_magnification: "keeps c (outcome_state (lens_magnification c))"
  by (auto simp: lens_magnification_def keeps_def try_eval_fdiv split: option.splits)

lemma keeps_lens_heights: "keeps c (outcome_state (lens_heights c))"
  by (auto simp: lens_heights_def keeps_def try_eval_fdiv split: option.splits)

lemma keeps_lens_default_height:
  "heights_inv c \<Longrightarrow> keeps c (outcome_state (lens_default_height c))"
  by (auto simp: lens_default_height_def keeps_def heights_inv_def try_eval_fdiv Let_def
      split: option.splits)

lemma inv_lens_magnification: "lens_magnification c = Inr c' \<Longrightarrow> heights_inv c'"
  by (auto simp: lens_magnification_def heights_inv_def try_eval_fdiv
      split: option.splits if_splits)

lemma inv_lens_heights: "lens_heights c = Inr c' \<Longrightarrow> heights_inv c \<Longrightarrow> heights_inv c'"
  by (auto simp: lens_heights_def heights_inv_def try_eval_fdiv split: option.splits if_splits)

lemma keeps_lens_rest:
  "keeps c (outcome_state
     (and_then (and_then (lens_magnification c) lens_heights) lens_default_height))"
proof (cases "lens_magnification c")
  case (Inl p)
  with keeps_lens_magnification [of c] show ?thesis by simp
next
  case m: (Inr c2)
  with keeps_lens_magnification [of c] have k2: "keeps c c2" by simp
  from m have i2: "heights_inv c2" by (rule inv_lens_magnification)
  show ?thesis
  proof (cases "lens_heights c2")
    case (Inl p)
    with keeps_lens_heights [of c2] k2 m show ?thesis
      by (auto intro: keeps_trans)
  next
    case h: (Inr c3)
    with keeps_lens_heights [of c2] k2 have k3: "keeps c c3"
      by (auto intro: keeps_trans)
    from h i2 have "heights_inv c3" by (rule inv_lens_heights)
    then have "keeps c3 (outcome_state (lens_default_height c3))"
      by (rule keeps_lens_default_height)
    with k3 m h show ?thesis
      by (auto intro: keeps_trans)
  qed
qed

lemma keeps_lens_solve: "keeps c (outcome_state (lens_solve c))"
proof (cases "lens_distances c")
  case (Inl p)
  with keeps_lens_distances [of c] show ?thesis
    by (simp add: lens_solve_def)
next
  case (Inr c1)
  with keeps_lens_distances [of c] keeps_lens_rest [of c1] show ?thesis
    by (auto simp: lens_solve_def intro: keeps_trans)
qed

subsection \<open>What a calculation reports\<close>

lemma not_near_nonzero: "\<not> flt (fabs x) eps \<Longrightarrow> x \<noteq> Fin 0"
  by (auto simp: eps_def)

lemma mirror_reports:
  assumes "mirror_distances (mirror_sign_convention shape (load_values data c)) = Inr c2"
  shows "(\<not> fst (calculate_mirror c data shape) \<and>
          keeps c2 (snd (calculate_mirror c data shape))) \<or>
         (fst (calculate_mirror c data shape) \<and>
          (\<exists>c3. keeps c2 c3 \<and> snd (calculate_mirror c data shape) =
              outcome_state (analyze_image_characteristics ''mirror'' (round_values c3))))"
proof -
  let ?rest = "and_then (and_then (mirror_magnification c2) mirror_heights) mirror_default_height"
  have k: "keeps c2 (outcome_state ?rest)" by (rule keeps_mirror_rest)
  have s: "mirror_solve (mirror_sign_convention shape (load_values data c)) = ?rest"
    using assms by (simp add: mirror_solve_def)
  show ?thesis
  proof (cases ?rest)
    case (Inl p)
    obtain e c' where p: "p = (e, c')" by (cases p)
    with Inl k have "keeps c2 c'" by simp
    then have "keeps c2 (add_error (''Calculation error: '' @ exception_message e) c')"
      by (simp add: keeps_def)
    with Inl p s show ?thesis by (simp add: calculate_mirror_cases)
  next
    case (Inr c3)
    with k s show ?thesis by (auto simp: calculate_mirror_cases)
  qed
qed

lemma lens_reports:
  assumes "lens_distances (load_values data c) = Inr c2"
  shows "(\<not> fst (calculate_lens c data shape) \<and>
          keeps c2 (snd (calculate_lens c data shape))) \<or>
         (fst (calculate_lens c data shape) \<and>
          (\<exists>c3. keeps c2 c3 \<and> snd (calculate_lens c data shape) =
              outcome_state (analyze_image_characteristics ''lens'' (round_values c3))))"
proof -
  let ?rest = "and_then (and_then (lens_magnification c2) lens_heights) lens_default_height"
  have k: "keeps c2 (outcome_state ?rest)" by (rule keeps_lens_rest)
  have s: "lens_solve (load_values data c) = ?rest"
    using assms by (simp add: lens_solve_def)
  show ?thesis
  proof (cases ?rest)
    case (Inl p)
    obtain e c' where p: "p = (e, c')" by (cases p)
    with Inl k have "keeps c2 c'" by simp
    then have "keeps c2 (add_error (''Calculation error: '' @ exception_message e) c')"
      by (simp add: keeps_def)
    with Inl p s show ?thesis by (simp add: calculate_lens_cases)
  next
    case (Inr c3)
    with k s show ?thesis by (auto simp: calculate_lens_cases)
  qed
qed

lemma mirror_reported:
  assumes "mirror_distances (mirror_sign_convention shape (load_values data c)) = Inr c2"
  shows "focal_length c2 = Some x \<Longrightarrow>
           focal_length (snd (calculate_mirror c data shape)) =
             Some (reported (calculate_mirror c data shape) x)"
    and "u c2 = Some x \<Longrightarrow>
           u (snd (calculate_mirror c data shape)) =
             Some (reported (calculate_mirror c data shape) x)"
    and "v c2 = Some x \<Longrightarrow>
           v (snd (calculate_mirror c data shape)) =
             Some (reported (calculate_mirror c data shape) x)"
    and "h1 c2 = Some x \<Longrightarrow>
           h1 (snd (calculate_mirror c data shape)) =
             Some (reported (calculate_mirror c data shape) x)"
    and "h2 c2 = Some x \<Longrightarrow>
           h2 (snd (calculate_mirror c data shape)) =
             Some (reported (calculate_mirror c data shape) x)"
  using mirror_reports [OF assms] by (auto simp: keeps_def reported_def)

lemma lens_reported:
  assumes "lens_distances (load_values data c) = Inr c2"
  shows "focal_length c2 = Some x \<Longrightarrow>
           focal_length (snd (calculate_lens c data shape)) =
             Some (reported (calculate_lens c data shape) x)"
    and "u c2 = Some x \<Longrightarrow>
           u (snd (calculate_lens c data shape)) =
             Some (reported (calculate_lens c data shape) x)"
    and "v c2 = Some x \<Longrightarrow>
           v (snd (calculate_lens c data shape)) =
             Some (reported (calculate_lens c data shape) x)"
    and "h1 c2 = Some x \<Longrightarrow>
           h1 (snd (calculate_lens c data shape)) =
             Some (reported (calculate_lens c data shape) x)"
    and "h2 c2 = Some x \<Longrightarrow>
           h2 (snd (calculate_lens c data shape)) =
             Some (reported (calculate_lens c data shape) x)"
  using lens_reports [OF assms, of shape] by (auto simp: keeps_def reported_def)

lemma load_values_fields [simp]:
  "focal_length (load_values data c) = data ''focal_length''"
  "u (load_values data c) = data ''u''"
  "v (load_values data c) = data ''v''"
  "h1 (load_values data c) = data ''h1''"
  "h2 (load_values data c) = data ''h2''"
  "errors (load_values data c) = errors c"
  "warnings (load_values data c) = warnings c"
  by (simp_all add: load_values_def)

lemma mirror_sign_convention_fields [simp]:
  "focal_length (mirror_sign_convention shape c) = map_option (mirror_sign shape) (focal_length c)"
  "u (mirror_sign_convention shape c) = u c"
  "v (mirror_sign_convention shape c) = v c"
  "h1 (mirror_sign_convention shape c) = h1 c"
  "h2 (mirror_sign_convention shape c) = h2 c"
  "errors (mirror_sign_convention shape c) = errors c"
  "warnings (mirror_sign_convention shape c) = warnings c"
  by (simp_all add: mirror_sign_convention_def split: option.splits)

section \<open>The focal point\<close>

lemma zero_near [simp]: "flt (Fin 0) eps"
  by (simp add: eps_def)

lemma mirror_distances_solve_v:
  assumes "focal_length c = Some f" "u c = Some uu" "v c = None"
  shows "\<exists>c'. mirror_distances c = Inr c' \<and>
           v c' = Some (if flt (fabs (fsub uu f)) eps
                        then (if flt f (Fin 0) then PInf else NInf)
                        else fquot (fmul f uu) (fsub uu f))"
  using assms by (auto simp: mirror_distances_def try_eval_fdiv)

lemma mirror_distances_solve_u:
  assumes "focal_length c = Some f" "v c = Some vv" "u c = None"
  shows "\<exists>c'. mirror_distances c = Inr c' \<and>
           u c' = Some (if flt (fabs (fsub vv f)) eps
                        then (if flt f (Fin 0) then PInf else NInf)
                        else fquot (fmul f vv) (fsub vv f))"
  using assms by (auto simp: mirror_distances_def try_eval_fdiv)

lemma lens_distances_solve_v:
  assumes "focal_length c = Some f" "u c = Some uu" "v c = None"
  shows "\<exists>c'. lens_distances c = Inr c' \<and>
           v c' = Some (if flt (fabs (fadd uu f)) eps
                        then (if fgt f (Fin 0) then PInf else NInf)
                        else fquot (fmul f uu) (fadd uu f))"
  using assms by (auto simp: lens_distances_def try_eval_fdiv)

lemma lens_distances_solve_u:
  assumes "focal_length c = Some f" "v c = Some vv" "u c = None"
  shows "\<exists>c'. lens_distances c = Inr c' \<and>
           u c' = Some (if flt (fabs (fsub vv f)) eps
                        then (if fgt f (Fin 0) then PInf else NInf)
                        else fquot (fmul f vv) (fsub vv f))"
  using assms by (auto simp: lens_distances_def try_eval_fdiv)

lemma reported_infinite [simp]: "reported R PInf = PInf" "reported R NInf = NInf"
  by (simp_all add: reported_def round_value_def)

text \<open>
  Claim C1. When a mirror calculation derives \<open>v\<close> from \<open>f\<close> and \<open>u\<close> (\<open>f\<close> after the
  sign convention) and \<open>|u - f| < 1e-6\<close>, \<open>v\<close> is \<open>+\<infinity>\<close> if \<open>f < 0\<close> and \<open>-\<infinity>\<close>
  otherwise; a lens calculation does so when \<open>|u + f| < 1e-6\<close>, with \<open>+\<infinity>\<close> if
  \<open>f > 0\<close>. Deriving \<open>u\<close> from \<open>f\<close> and \<open>v\<close> has the threshold \<open>|v - f| < 1e-6\<close> for
  both, and the same signs. Outside the threshold the value is the quotient of the
  closed form (rounded once the calculation succeeds), and that division does not raise.
  This holds for every input dictionary, validated or not.
\<close>

theorem focal_point_degeneracy:
  "(data ''focal_length'' = Some f0 \<and> data ''u'' = Some uu \<and> data ''v'' = None \<longrightarrow>
      v (snd (calculate_mirror c data shape)) =
        Some (if flt (fabs (fsub uu (mirror_sign shape f0))) eps
              then (if flt (mirror_sign shape f0) (Fin 0) then PInf else NInf)
              else reported (calculate_mirror c data shape)
                     (fquot (fmul (mirror_sign shape f0) uu) (fsub uu (mirror_sign shape f0))))) \<and>
   (data ''focal_length'' = Some f0 \<and> data ''u'' = Some uu \<and> data ''v'' = None \<longrightarrow>
      v (snd (calculate_lens c data shape)) =
        Some (if flt (fabs (fadd uu f0)) eps
              then (if fgt f0 (Fin 0) then PInf else NInf)
              else reported (calculate_lens c data shape) (fquot (fmul f0 uu) (fadd uu f0)))) \<and>
   (data ''focal_length'' = Some f0 \<and> data ''v'' = Some vv \<and> data ''u'' = None \<longrightarrow>
      u (snd (calculate_mirror c data shape)) =
        Some (if flt (fabs (fsub vv (mirror_sign shape f0))) eps
              then (if flt (mirror_sign shape f0) (Fin 0) then PInf else NInf)
              else reported (calculate_mirror c data shape)
                     (fquot (fmul (mirror_sign shape f0) vv) (fsub vv (mirror_sign shape f0))))) \<and>
   (data ''focal_length'' = Some f0 \<and> data ''v'' = Some vv \<and> data ''u'' = None \<longrightarrow>
      u (snd (calculate_lens c data shape)) =
        Some (if flt (fabs (fsub vv f0)) eps
              then (if fgt f0 (Fin 0) then PInf else NInf)
              else reported (calculate_lens c data shape) (fquot (fmul f0 vv) (fsub vv f0)))) \<and>
   (\<not> flt (fabs (fsub a b)) eps \<longrightarrow> fdiv x (fsub a b) = Inr (fquot x (fsub a b))) \<and>
   (\<not> flt (fabs (fadd a b)) eps \<longrightarrow> fdiv x (fadd a b) = Inr (fquot x (fadd a b)))"
proof (intro conjI impI)
  assume a: "data ''focal_length'' = Some f0 \<and> data ''u'' = Some uu \<and> data ''v'' = None"
  let ?c1 = "mirror_sign_convention shape (load_values data c)"
  from a have "focal_length ?c1 = Some (mirror_sign shape f0)" "u ?c1 = Some uu" "v ?c1 = None"
    by simp_all
  from mirror_distances_solve_v [OF this] obtain c' where
    "mirror_distances ?c1 = Inr c'" and
    "v c' = Some (if flt (fabs (fsub uu (mirror_sign shape f0))) eps
                  then (if flt (mirror_sign shape f0) (Fin 0) then PInf else NInf)
                  else fquot (fmul (mirror_sign shape f0) uu) (fsub uu (mirror_sign shape f0)))"
    by blast
  from mirror_reported(3) [OF this]
  show "v (snd (calculate_mirror c data shape)) =
        Some (if flt (fabs (fsub uu (mirror_sign shape f0))) eps
              then (if flt (mirror_sign shape f0) (Fin 0) then PInf else NInf)
              else reported (calculate_mirror c data shape)
                     (fquot (fmul (mirror_sign shape f0) uu) (fsub uu (mirror_sign shape f0))))"
    by simp
next
  assume a: "data ''focal_length'' = Some f0 \<and> data ''u'' = Some uu \<and> data ''v'' = None"
  let ?c1 = "load_values data c"
  from a have "focal_length ?c1 = Some f0" "u ?c1 = Some uu" "v ?c1 = None"
    by simp_all
  from lens_distances_solve_v [OF this] obtain c' where
    "lens_distances ?c1 = Inr c'" and
    "v c' = Some (if flt (fabs (fadd uu f0)) eps
                  then (if fgt f0 (Fin 0) then PInf else NInf)
                  else fquot (fmul f0 uu) (fadd uu f0))"
    by blast
  from lens_reported(3) [OF this]
  show "v (snd (calculate_lens c data shape)) =
        Some (if flt (fabs (fadd uu f0)) eps
              then (if fgt f0 (Fin 0) then PInf else NInf)
              else reported (calculate_lens c data shape) (fquot (fmul f0 uu) (fadd uu f0)))"
    by simp
next
  assume a: "data ''focal_length'' = Some f0 \<and> data ''v'' = Some vv \<and> data ''u'' = None"
  let ?c1 = "mirror_sign_convention shape (load_values data c)"
  from a have "focal_length ?c1 = Some (mirror_sign shape f0)" "v ?c1 = Some vv" "u ?c1 = None"
    by simp_all
  from mirror_distances_solve_u [OF this] obtain c' where
    "mirror_distances ?c1 = Inr c'" and
    "u c' = Some (if flt (fabs (fsub vv (mirror_sign shape f0))) eps
                  then (if flt (mirror_sign shape f0) (Fin 0) then PInf else NInf)
                  else fquot (fmul (mirror_sign shape f0) vv) (fsub vv (mirror_sign shape f0)))"
    by blast
  from mirror_reported(2) [OF this]
  show "u (snd (calculate_mirror c data shape)) =
        Some (if flt (fabs (fsub vv (mirror_sign shape f0))) eps
              then (if flt (mirror_sign shape f0) (Fin 0) then PInf else NInf)
              else reported (calculate_mirror c data shape)
                     (fquot (fmul (mirror_sign shape f0) vv) (fsub vv (mirror_sign shape f0))))"
    by simp
next
  assume a: "data ''focal_length'' = Some f0 \<and> data ''v'' = Some vv \<and> data ''u'' = None"
  let ?c1 = "load_values data c"
  from a have "focal_length ?c1 = Some f0" "v ?c1 = Some vv" "u ?c1 = None"
    by simp_all
  from lens_distances_solve_u [OF this] obtain c' where
    "lens_distances ?c1 = Inr c'" and
    "u c' = Some (if flt (fabs (fsub vv f0)) eps
                  then (if fgt f0 (Fin 0) then PInf else NInf)
                  else fquot (fmul f0 vv) (fsub vv f0))"
    by blast
  from lens_reported(2) [OF this]
  show "u (snd (calculate_lens c data shape)) =
        Some (if flt (fabs (fsub vv f0)) eps
              then (if fgt f0 (Fin 0) then PInf else NInf)
              else reported (calculate_lens c data shape) (fquot (fmul f0 vv) (fsub vv f0)))"
    by simp
next
  assume "\<not> flt (fabs (fsub a b)) eps"
  then show "fdiv x (fsub a b) = Inr (fquot x (fsub a b))"
    by (simp add: fdiv_def not_near_nonzero)
next
  assume "\<not> flt (fabs (fadd a b)) eps"
  then show "fdiv x (fadd a b) = Inr (fquot x (fadd a b))"
    by (simp add: fdiv_def not_near_nonzero)
qed

theorem focal_point_degeneracy_witness:
  "v (snd (calculate_mirror new_calculator
        [''focal_length'' \<mapsto> Fin (- 50), ''u'' \<mapsto> Fin (- 50)] (Some ''concave''))) = Some PInf \<and>
   v (snd (calculate_mirror new_calculator
        [''focal_length'' \<mapsto> Fin 50, ''u'' \<mapsto> Fin (- 50)] (Some ''concave''))) = Some PInf \<and>
   v (snd (calculate_lens new_calculator
        [''focal_length'' \<mapsto> Fin 20, ''u'' \<mapsto> Fin (- 20)] (Some ''convex''))) = Some PInf \<and>
   v (snd (calculate_lens new_calculator
        [''focal_length'' \<mapsto> Fin (- 20), ''u'' \<mapsto> Fin (- 30)] (Some ''concave''))) =
     Some (reported (calculate_lens new_calculator
        [''focal_length'' \<mapsto> Fin (- 20), ''u'' \<mapsto> Fin (- 30)] (Some ''concave'')) (Fin (- 12))) \<and>
   u (snd (calculate_mirror new_calculator
        [''focal_length'' \<mapsto> Fin 30, ''v'' \<mapsto> Fin 30] (Some ''convex''))) = Some NInf \<and>
   u (snd (calculate_lens new_calculator
        [''focal_length'' \<mapsto> Fin (- 30), ''v'' \<mapsto> Fin (- 30)] (Some ''concave''))) = Some NInf \<and>
   fdiv (Fin 1000) (fsub (Fin (- 20)) (Fin (- 50))) = Inr (Fin (100 / 3))"
  using
    focal_point_degeneracy [of "[''focal_length'' \<mapsto> Fin (- 50), ''u'' \<mapsto> Fin (- 50)]"
      "Fin (- 50)" "Fin (- 50)" new_calculator "Some ''concave''"]
    focal_point_degeneracy [of "[''focal_length'' \<mapsto> Fin 50, ''u'' \<mapsto> Fin (- 50)]"
      "Fin 50" "Fin (- 50)" new_calculator "Some ''concave''"]
    focal_point_degeneracy [of "[''focal_length'' \<mapsto> Fin 20, ''u'' \<mapsto> Fin (- 20)]"
      "Fin 20" "Fin (- 20)" new_calculator "Some ''convex''"]
    focal_point_degeneracy [of "[''focal_length'' \<mapsto> Fin (- 20), ''u'' \<mapsto> Fin (- 30)]"
      "Fin (- 20)" "Fin (- 30)" new_calculator "Some ''concave''"]
    focal_point_degeneracy [of "[''focal_length'' \<mapsto> Fin 30, ''v'' \<mapsto> Fin 30]"
      "Fin 30" _ new_calculator "Some ''convex''" "Fin 30"]
    focal_point_degeneracy [of "[''focal_length'' \<mapsto> Fin (- 30), ''v'' \<mapsto> Fin (- 30)]"
      "Fin (- 30)" _ new_calculator "Some ''concave''" "Fin (- 30)"]
    focal_point_degeneracy [of _ _ _ _ _ _ "Fin (- 20)" "Fin (- 50)" "Fin 1000"]
  by (simp add: mirror_sign_def fsub_def fgt_def eps_def)

section \<open>The advisory at the focal point\<close>

text \<open>
  Claim C2. A convex lens with \<open>f = 20\<close> and \<open>u = -20\<close> has the object at the focal point.
  The route answers with success and \<open>v = \<infinity>\<close>, but its list of warnings is empty: the
  calculation has appended the advisory to \<^verbatim>\<open>errors\<close>, which a successful response does
  not carry. With \<open>h2 = 5\<close> supplied as well, the infinite magnification makes \<open>h1 = 0\<close>
  and the next division raises, so the same advisory comes back inside a failure.
\<close>

theorem focal_point_advisory_not_delivered:
  "calculate (Some ''lens'') (Some ''convex'')
     [''focal_length'' \<mapsto> Fin 20, ''u'' \<mapsto> Fin (- 20)]
   = Success
       \<lparr>r_focal_length = JNumber (Fin 20), r_u = JNumber (Fin (- 20)), r_v = JInfinity,
        r_h1 = JNumber (Fin 6), r_h2 = JMinusInfinity\<rparr>
       (Some \<lparr>nature = ''Image at infinity'', orientation = ''Parallel rays'',
              size_of = ''Infinite'', magnification = MagInfinite\<rparr>)
       [] \<and>
   errors (snd (calculate_lens new_calculator
     [''focal_length'' \<mapsto> Fin 20, ''u'' \<mapsto> Fin (- 20)] (Some ''convex'')))
   = [''Object at focal point - image formed at infinity (parallel rays)''] \<and>
   calculate (Some ''lens'') (Some ''convex'')
     [''focal_length'' \<mapsto> Fin 20, ''u'' \<mapsto> Fin (- 20), ''h2'' \<mapsto> Fin 5]
   = Failure [''Object at focal point - image formed at infinity (parallel rays)'',
              ''Calculation error: float division by zero'']"
  by (simp add: calculate_def float_defs validate_defs lens_defs finish_defs Let_def)

section \<open>Validation\<close>

lemma check_h1_errors: "set (errors c) \<subseteq> set (errors (check_h1 data c))"
  by (auto simp: check_h1_def add_error_def split: option.splits)

lemma check_count_errors: "set (errors c) \<subseteq> set (errors (check_count data c))"
  by (auto simp: check_count_def add_error_def)

lemma check_u_rejects:
  assumes "data ''u'' = Some x" "fge x (Fin 0)"
  shows "''Object distance (u) must be negative (object is on the left side)''
           \<in> set (errors (check_u data c))"
  using assms by (simp add: check_u_def add_error_def)

text \<open>
  Claim C5, as the code has it. When optic type and shape are both selected, a supplied
  object distance \<open>u \<ge> 0\<close> makes validation fail with the object-distance error among
  its errors, whatever else is supplied, and the route answers with that failure without
  calculating.
\<close>

theorem object_distance_rejected:
  assumes "\<not> py_not optic_type" and "\<not> py_not shape"
    and "data ''u'' = Some x" and "fge x (Fin 0)"
  shows "\<not> fst (validate_inputs c0 data optic_type shape) \<and>
         ''Object distance (u) must be negative (object is on the left side)''
           \<in> set (errors (snd (validate_inputs c0 data optic_type shape))) \<and>
         (\<exists>errs. calculate optic_type shape data = Failure errs \<and>
            ''Object distance (u) must be negative (object is on the left side)'' \<in> set errs)"
proof -
  let ?msg = "''Object distance (u) must be negative (object is on the left side)''"
  have m: "?msg \<in> set (errors (check_count data (check_h1 data (check_u data c))))" for c
    using check_u_rejects [where data = data and x = x and c = c, OF assms(3,4)]
      check_h1_errors [of "check_u data c" data]
      check_count_errors [of "check_h1 data (check_u data c)" data]
    by blast
  have v: "\<not> fst (validate_inputs c data optic_type shape) \<and>
           ?msg \<in> set (errors (snd (validate_inputs c data optic_type shape)))" for c
  proof -
    let ?c = "check_focal_length data optic_type shape (c\<lparr>errors := [], warnings := []\<rparr>)"
    from m [of ?c] have "errors (check_count data (check_h1 data (check_u data ?c))) \<noteq> []"
      by auto
    with m [of ?c] assms(1,2) show ?thesis
      by (simp add: validate_inputs_def Let_def)
  qed
  from v [of new_calculator] have "\<exists>errs. calculate optic_type shape data = Failure errs \<and>
      ?msg \<in> set errs"
    by (cases "validate_inputs new_calculator data optic_type shape")
       (auto simp: calculate_def)
  with v [of c0] show ?thesis by blast
qed

theorem object_distance_rejected_witness:
  "\<not> fst (validate_inputs new_calculator
       [''focal_length'' \<mapsto> Fin (- 50), ''u'' \<mapsto> Fin 5] (Some ''mirror'') (Some ''concave'')) \<and>
   ''Object distance (u) must be negative (object is on the left side)''
     \<in> set (errors (snd (validate_inputs new_calculator
          [''focal_length'' \<mapsto> Fin (- 50), ''u'' \<mapsto> Fin 5] (Some ''mirror'') (Some ''concave'')))) \<and>
   (\<exists>errs. calculate (Some ''mirror'') (Some ''concave'')
              [''focal_length'' \<mapsto> Fin (- 50), ''u'' \<mapsto> Fin 5] = Failure errs \<and>
      ''Object distance (u) must be negative (object is on the left side)'' \<in> set errs)"
  using object_distance_rejected [of "Some ''mirror''" "Some ''concave''"
      "[''focal_length'' \<mapsto> Fin (- 50), ''u'' \<mapsto> Fin 5]" "Fin 5" new_calculator]
  by (simp add: py_not_def fge_def fle_def)

text \<open>
  Claim C5 as stated fails where no optic type is selected: validation returns at once
  with the selection error alone, and the object-distance error is not among its errors.
\<close>

theorem object_distance_missing_selection:
  "validate_inputs new_calculator [''u'' \<mapsto> Fin 5, ''h1'' \<mapsto> Fin 2] None (Some ''concave'')
   = (False, new_calculator\<lparr>errors := [''Please select both optic type and shape'']\<rparr>) \<and>
   calculate None (Some ''concave'') [''u'' \<mapsto> Fin 5, ''h1'' \<mapsto> Fin 2]
   = Failure [''Please select both optic type and shape'']"
  by (simp add: calculate_def validate_defs)

section \<open>The sign of the focal length\<close>

lemma mirror_sign_concave: "mirror_sign (Some ''concave'') f = fneg (fabs f)"
  by (cases f) (auto simp: mirror_sign_def fgt_def)

lemma mirror_sign_convex: "mirror_sign (Some ''convex'') f = fabs f"
  by (cases f) (auto simp: mirror_sign_def fgt_def)

lemma mirror_distances_known_f:
  assumes "focal_length c = Some f"
  shows "\<exists>c'. mirror_distances c = Inr c' \<and> focal_length c' = Some f"
  using assms
  by (auto simp: mirror_distances_def try_eval_fdiv dest: not_near_nonzero split: option.splits)

lemma lens_distances_known_f:
  assumes "focal_length c = Some f"
  shows "\<exists>c'. lens_distances c = Inr c' \<and> focal_length c' = Some f"
  using assms
  by (auto simp: lens_distances_def try_eval_fdiv dest: not_near_nonzero split: option.splits)

lemma mirror_reports_f:
  assumes "data ''focal_length'' = Some f"
  shows "focal_length (snd (calculate_mirror c data shape)) =
           Some (reported (calculate_mirror c data shape) (mirror_sign shape f))"
proof -
  let ?c1 = "mirror_sign_convention shape (load_values data c)"
  from assms have "focal_length ?c1 = Some (mirror_sign shape f)" by simp
  from mirror_distances_known_f [OF this] obtain c' where
    "mirror_distances ?c1 = Inr c'" "focal_length c' = Some (mirror_sign shape f)" by blast
  then show ?thesis by (rule mirror_reported(1))
qed

lemma lens_reports_f:
  assumes "data ''focal_length'' = Some f"
  shows "focal_length (snd (calculate_lens c data shape)) =
           Some (reported (calculate_lens c data shape) f)"
proof -
  let ?c1 = "load_values data c"
  from assms have "focal_length ?c1 = Some f" by simp
  from lens_distances_known_f [OF this] obtain c' where
    "lens_distances ?c1 = Inr c'" "focal_length c' = Some f" by blast
  then show ?thesis by (rule lens_reported(1))
qed

lemma mirror_sign_idem: "mirror_sign shape (mirror_sign shape f) = mirror_sign shape f"
  by (cases f) (auto simp: mirror_sign_def fgt_def)

lemma mirror_sign_convention_supplied:
  assumes "data ''focal_length'' = Some f"
  shows "mirror_sign_convention shape (load_values data c) =
           (load_values data c)\<lparr>focal_length := Some (mirror_sign shape f)\<rparr>"
  using assms by (simp add: mirror_sign_convention_def load_values_def)

lemma mirror_sign_convention_normalised:
  assumes "data ''focal_length'' = Some f"
    and "data' ''focal_length'' = Some (mirror_sign shape f)"
    and "data' ''u'' = data ''u''" and "data' ''v'' = data ''v''"
    and "data' ''h1'' = data ''h1''" and "data' ''h2'' = data ''h2''"
  shows "mirror_sign_convention shape (load_values data' c) =
           mirror_sign_convention shape (load_values data c)"
  using assms by (simp add: mirror_sign_convention_def load_values_def mirror_sign_idem)

lemma validate_inputs_warnings:
  assumes "\<not> py_not optic_type" and "\<not> py_not shape"
  shows "warnings (snd (validate_inputs c0 data optic_type shape)) =
           warnings (check_focal_length data optic_type shape (c0\<lparr>errors := [], warnings := []\<rparr>))"
  using assms
  by (simp add: validate_inputs_def Let_def check_count_def check_h1_def check_u_def
      add_error_def split: option.splits)

text \<open>
  Claim C3, as the code has it. A mirror calculation with a supplied focal length \<open>f\<close>
  runs all its solving steps on a calculator that already holds \<open>f\<close> with the sign of the
  shape's convention, so the whole result is that of the same input with this \<open>f\<close>
  supplied; the value is \<open>-|f|\<close> for a concave mirror and \<open>|f|\<close> for a convex one,
  negative and positive for a number other than zero, and it is what the calculation
  reports. A lens calculation runs its solving steps on the supplied \<open>f\<close> and reports it.
  The validator never turns the sign of a non-zero \<open>f\<close> into an error. Its warnings are
  those of the focal length check: for a mirror it warns exactly when the supplied \<open>f\<close> is
  negative, so a concave mirror with \<open>f = +50\<close> is admitted without a warning; for a lens
  it warns when a convex lens has \<open>f \<le> 0\<close> and when a concave lens has \<open>f \<ge> 0\<close>.
\<close>

theorem sign_normalisation:
  "(data ''focal_length'' = Some f \<longrightarrow>
      calculate_mirror c data shape =
        finish_try
          (and_then
             (mirror_solve ((load_values data c)\<lparr>focal_length := Some (mirror_sign shape f)\<rparr>))
             (\<lambda>c'. analyze_image_characteristics ''mirror'' (round_values c'))) \<and>
      (data' ''focal_length'' = Some (mirror_sign shape f) \<and> data' ''u'' = data ''u'' \<and>
       data' ''v'' = data ''v'' \<and> data' ''h1'' = data ''h1'' \<and> data' ''h2'' = data ''h2'' \<longrightarrow>
         calculate_mirror c data shape = calculate_mirror c data' shape) \<and>
      calculate_lens c data shape =
        finish_try
          (and_then (lens_solve ((load_values data c)\<lparr>focal_length := Some f\<rparr>))
             (\<lambda>c'. analyze_image_characteristics ''lens'' (round_values c'))) \<and>
      focal_length (snd (calculate_mirror c data (Some ''concave''))) =
        Some (reported (calculate_mirror c data (Some ''concave'')) (fneg (fabs f))) \<and>
      focal_length (snd (calculate_mirror c data (Some ''convex''))) =
        Some (reported (calculate_mirror c data (Some ''convex'')) (fabs f)) \<and>
      focal_length (snd (calculate_lens c data shape)) =
        Some (reported (calculate_lens c data shape) f)) \<and>
   mirror_sign (Some ''concave'') f = fneg (fabs f) \<and>
   mirror_sign (Some ''convex'') f = fabs f \<and>
   (f \<noteq> NaN \<and> f \<noteq> Fin 0 \<longrightarrow> flt (fneg (fabs f)) (Fin 0) \<and> fgt (fabs f) (Fin 0)) \<and>
   (\<not> py_not optic_type \<and> \<not> py_not shape \<longrightarrow>
      warnings (snd (validate_inputs old data optic_type shape)) =
        warnings (check_focal_length data optic_type shape (old\<lparr>errors := [], warnings := []\<rparr>))) \<and>
   (data ''focal_length'' = Some f \<and> \<not> feq f (Fin 0) \<longrightarrow>
      errors (check_focal_length data optic_type shape c) = errors c \<and>
      warnings (check_focal_length data (Some ''mirror'') shape c) =
        (if flt f (Fin 0)
         then warnings c @ [''Using absolute value of focal length for '' @ py_str shape @ '' mirror'']
         else warnings c) \<and>
      (optic_type \<noteq> Some ''mirror'' \<longrightarrow>
         warnings (check_focal_length data optic_type shape c) =
           (if shape = Some ''convex'' \<and> fle f (Fin 0)
            then warnings c @ [''Convex lens focal length should be positive'']
            else if shape = Some ''concave'' \<and> fge f (Fin 0)
            then warnings c @ [''Concave lens focal length should be negative'']
            else warnings c)))"
proof (intro conjI impI)
  assume a: "data ''focal_length'' = Some f"
  show "calculate_mirror c data shape =
        finish_try
          (and_then
             (mirror_solve ((load_values data c)\<lparr>focal_length := Some (mirror_sign shape f)\<rparr>))
             (\<lambda>c'. analyze_image_characteristics ''mirror'' (round_values c')))"
    by (simp only: calculate_mirror_def mirror_sign_convention_supplied [where data = data and f = f, OF a])
  from a have "(load_values data c)\<lparr>focal_length := Some f\<rparr> = load_values data c"
    by (simp add: load_values_def)
  then show "calculate_lens c data shape =
        finish_try
          (and_then (lens_solve ((load_values data c)\<lparr>focal_length := Some f\<rparr>))
             (\<lambda>c'. analyze_image_characteristics ''lens'' (round_values c')))"
    by (simp only: calculate_lens_def)
  from mirror_reports_f [where data = data and f = f and c = c and shape = "Some ''concave''", OF a]
  show "focal_length (snd (calculate_mirror c data (Some ''concave''))) =
        Some (reported (calculate_mirror c data (Some ''concave'')) (fneg (fabs f)))"
    by (simp add: mirror_sign_concave)
  from mirror_reports_f [where data = data and f = f and c = c and shape = "Some ''convex''", OF a]
  show "focal_length (snd (calculate_mirror c data (Some ''convex''))) =
        Some (reported (calculate_mirror c data (Some ''convex'')) (fabs f))"
    by (simp add: mirror_sign_convex)
  from lens_reports_f [where data = data and f = f and c = c and shape = shape, OF a]
  show "focal_length (snd (calculate_lens c data shape)) =
        Some (reported (calculate_lens c data shape) f)" .
next
  assume a: "data ''focal_length'' = Some f"
    and b: "data' ''focal_length'' = Some (mirror_sign shape f) \<and> data' ''u'' = data ''u'' \<and>
       data' ''v'' = data ''v'' \<and> data' ''h1'' = data ''h1'' \<and> data' ''h2'' = data ''h2''"
  from b have "mirror_sign_convention shape (load_values data' c) =
      mirror_sign_convention shape (load_values data c)"
    by (intro mirror_sign_convention_normalised [where data = data and f = f, OF a]) simp_all
  then show "calculate_mirror c data shape = calculate_mirror c data' shape"
    by (simp only: calculate_mirror_def)
next
  show "mirror_sign (Some ''concave'') f = fneg (fabs f)" by (rule mirror_sign_concave)
next
  show "mirror_sign (Some ''convex'') f = fabs f" by (rule mirror_sign_convex)
next
  assume "f \<noteq> NaN \<and> f \<noteq> Fin 0"
  then show "flt (fneg (fabs f)) (Fin 0)" by (cases f) auto
next
  assume "f \<noteq> NaN \<and> f \<noteq> Fin 0"
  then show "fgt (fabs f) (Fin 0)" by (cases f) (auto simp: fgt_def)
next
  assume "\<not> py_not optic_type \<and> \<not> py_not shape"
  then show "warnings (snd (validate_inputs old data optic_type shape)) =
        warnings (check_focal_length data optic_type shape (old\<lparr>errors := [], warnings := []\<rparr>))"
    by (intro validate_inputs_warnings) simp_all
next
  assume "data ''focal_length'' = Some f \<and> \<not> feq f (Fin 0)"
  then show "errors (check_focal_length data optic_type shape c) = errors c"
    by (simp add: check_focal_length_def add_warning_def)
next
  assume "data ''focal_length'' = Some f \<and> \<not> feq f (Fin 0)"
  then show "warnings (check_focal_length data (Some ''mirror'') shape c) =
        (if flt f (Fin 0)
         then warnings c @ [''Using absolute value of focal length for '' @ py_str shape @ '' mirror'']
         else warnings c)"
    by (cases f) (auto simp: check_focal_length_def add_warning_def fle_def)
next
  assume "data ''focal_length'' = Some f \<and> \<not> feq f (Fin 0)" and "optic_type \<noteq> Some ''mirror''"
  then show "warnings (check_focal_length data optic_type shape c) =
           (if shape = Some ''convex'' \<and> fle f (Fin 0)
            then warnings c @ [''Convex lens focal length should be positive'']
            else if shape = Some ''concave'' \<and> fge f (Fin 0)
            then warnings c @ [''Concave lens focal length should be negative'']
            else warnings c)"
    by (simp add: check_focal_length_def add_warning_def)
qed

theorem sign_normalisation_witness:
  "calculate_mirror new_calculator
       [''focal_length'' \<mapsto> Fin 50, ''u'' \<mapsto> Fin (- 20)] (Some ''concave'') =
     calculate_mirror new_calculator
       [''focal_length'' \<mapsto> Fin (- 50), ''u'' \<mapsto> Fin (- 20)] (Some ''concave'') \<and>
   focal_length (snd (calculate_mirror new_calculator
       [''focal_length'' \<mapsto> Fin 50, ''u'' \<mapsto> Fin (- 20)] (Some ''concave''))) =
     Some (reported (calculate_mirror new_calculator
       [''focal_length'' \<mapsto> Fin 50, ''u'' \<mapsto> Fin (- 20)] (Some ''concave'')) (Fin (- 50))) \<and>
   focal_length (snd (calculate_lens new_calculator
       [''focal_length'' \<mapsto> Fin 50, ''u'' \<mapsto> Fin (- 20)] (Some ''concave''))) =
     Some (reported (calculate_lens new_calculator
       [''focal_length'' \<mapsto> Fin 50, ''u'' \<mapsto> Fin (- 20)] (Some ''concave'')) (Fin 50)) \<and>
   flt (Fin (- 50)) (Fin 0) \<and>
   errors (check_focal_length [''focal_length'' \<mapsto> Fin 50, ''u'' \<mapsto> Fin (- 20)]
             (Some ''lens'') (Some ''concave'') new_calculator) = [] \<and>
   warnings (check_focal_length [''focal_length'' \<mapsto> Fin 50, ''u'' \<mapsto> Fin (- 20)]
               (Some ''mirror'') (Some ''concave'') new_calculator) = [] \<and>
   warnings (check_focal_length [''focal_length'' \<mapsto> Fin 50, ''u'' \<mapsto> Fin (- 20)]
               (Some ''lens'') (Some ''concave'') new_calculator) =
     [''Concave lens focal length should be negative''] \<and>
   warnings (snd (validate_inputs new_calculator
               [''focal_length'' \<mapsto> Fin 50, ''u'' \<mapsto> Fin (- 20)]
               (Some ''lens'') (Some ''concave''))) =
     [''Concave lens focal length should be negative'']"
proof -
  let ?d = "[''focal_length'' \<mapsto> Fin 50, ''u'' \<mapsto> Fin (- 20)]"
  let ?d' = "[''focal_length'' \<mapsto> Fin (- 50), ''u'' \<mapsto> Fin (- 20)]"
  note t = sign_normalisation [where data = ?d and f = "Fin 50" and c = new_calculator
      and shape = "Some ''concave''" and optic_type = "Some ''lens''" and old = new_calculator
      and data' = ?d']
  have p: "?d ''focal_length'' = Some (Fin 50)"
    "?d' ''focal_length'' = Some (mirror_sign (Some ''concave'') (Fin 50)) \<and>
     ?d' ''u'' = ?d ''u'' \<and> ?d' ''v'' = ?d ''v'' \<and> ?d' ''h1'' = ?d ''h1'' \<and> ?d' ''h2'' = ?d ''h2''"
    "\<not> py_not (Some ''lens'') \<and> \<not> py_not (Some ''concave'')"
    "?d ''focal_length'' = Some (Fin 50) \<and> \<not> feq (Fin 50) (Fin 0)"
    "Some ''lens'' \<noteq> Some ''mirror''"
    by (simp_all add: mirror_sign_def fgt_def py_not_def)
  from t p(1,2) have 1: "calculate_mirror new_calculator ?d (Some ''concave'') =
      calculate_mirror new_calculator ?d' (Some ''concave'')" by blast
  from t p(1) have 2: "focal_length (snd (calculate_mirror new_calculator ?d (Some ''concave''))) =
      Some (reported (calculate_mirror new_calculator ?d (Some ''concave'')) (fneg (fabs (Fin 50))))"
    by blast
  from t p(1) have 3: "focal_length (snd (calculate_lens new_calculator ?d (Some ''concave''))) =
      Some (reported (calculate_lens new_calculator ?d (Some ''concave'')) (Fin 50))"
    by blast
  from t p(4) have 4: "errors (check_focal_length ?d (Some ''lens'') (Some ''concave'')
      new_calculator) = errors new_calculator" by blast
  from t p(4) have 5: "warnings (check_focal_length ?d (Some ''mirror'') (Some ''concave'')
      new_calculator) =
        (if flt (Fin 50) (Fin 0)
         then warnings new_calculator @
           [''Using absolute value of focal length for '' @ py_str (Some ''concave'') @ '' mirror'']
         else warnings new_calculator)" by blast
  from t p(4,5) have 6: "warnings (check_focal_length ?d (Some ''lens'') (Some ''concave'')
      new_calculator) =
           (if Some ''concave'' = Some ''convex'' \<and> fle (Fin 50) (Fin 0)
            then warnings new_calculator @ [''Convex lens focal length should be positive'']
            else if Some ''concave'' = Some ''concave'' \<and> fge (Fin 50) (Fin 0)
            then warnings new_calculator @ [''Concave lens focal length should be negative'']
            else warnings new_calculator)" by blast
  from t p(3) have 7: "warnings (snd (validate_inputs new_calculator ?d (Some ''lens'')
      (Some ''concave''))) =
        warnings (check_focal_length ?d (Some ''lens'') (Some ''concave'')
          (new_calculator\<lparr>errors := [], warnings := []\<rparr>))" by blast
  have n: "new_calculator\<lparr>errors := [], warnings := []\<rparr> = new_calculator"
    by (simp add: new_calculator_def)
  show ?thesis
  proof (intro conjI)
    show "calculate_mirror new_calculator ?d (Some ''concave'') =
      calculate_mirror new_calculator ?d' (Some ''concave'')" by (rule 1)
    show "focal_length (snd (calculate_mirror new_calculator ?d (Some ''concave''))) =
      Some (reported (calculate_mirror new_calculator ?d (Some ''concave'')) (Fin (- 50)))"
      using 2 by simp
    show "focal_length (snd (calculate_lens new_calculator ?d (Some ''concave''))) =
      Some (reported (calculate_lens new_calculator ?d (Some ''concave'')) (Fin 50))" by (rule 3)
    show "flt (Fin (- 50)) (Fin 0)" by simp
    show "errors (check_focal_length ?d (Some ''lens'') (Some ''concave'') new_calculator) = []"
      using 4 by (simp add: new_calculator_def)
    show "warnings (check_focal_length ?d (Some ''mirror'') (Some ''concave'') new_calculator) = []"
      using 5 by (simp add: new_calculator_def)
    show 8: "warnings (check_focal_length ?d (Some ''lens'') (Some ''concave'') new_calculator) =
      [''Concave lens focal length should be negative'']"
      using 6 by (simp add: new_calculator_def fge_def fle_def)
    show "warnings (snd (validate_inputs new_calculator ?d (Some ''lens'') (Some ''concave''))) =
      [''Concave lens focal length should be negative'']"
      using 7 8 by (simp only: n)
  qed
qed

text \<open>
  Claim C3 as stated fails in its example: the concave mirror with \<open>f = +50\<close> and
  \<open>u = -20\<close> is solved with \<open>f = -50\<close>, but the response carries no warning.
\<close>

theorem concave_mirror_positive_f_no_warning:
  "calculate (Some ''mirror'') (Some ''concave'')
     [''focal_length'' \<mapsto> Fin 50, ''u'' \<mapsto> Fin (- 20)]
   = Success
       \<lparr>r_focal_length = JNumber (Fin (- 50)), r_u = JNumber (Fin (- 20)),
        r_v = JNumber (Fin (33333 / 1000)), r_h1 = JNumber (Fin 15),
        r_h2 = JNumber (Fin 25)\<rparr>
       (Some \<lparr>nature = ''Virtual'', orientation = ''Erect'', size_of = ''Magnified'',
              magnification = MagNumber (Fin (1667 / 1000))\<rparr>)
       []"
  by (simp add: calculate_def float_defs validate_defs mirror_defs finish_defs Let_def)

section \<open>Which unknowns a calculation resolves\<close>

lemma mirror_reports_inputs:
  "(\<not> fst (calculate_mirror c data shape) \<and>
      keeps (mirror_sign_convention shape (load_values data c))
        (snd (calculate_mirror c data shape))) \<or>
   (fst (calculate_mirror c data shape) \<and>
      (\<exists>c3. mirror_solve (mirror_sign_convention shape (load_values data c)) = Inr c3 \<and>
         keeps (mirror_sign_convention shape (load_values data c)) c3 \<and>
         snd (calculate_mirror c data shape) =
           outcome_state (analyze_image_characteristics ''mirror'' (round_values c3))))"
proof -
  let ?c1 = "mirror_sign_convention shape (load_values data c)"
  have k: "keeps ?c1 (outcome_state (mirror_solve ?c1))" by (rule keeps_mirror_solve)
  show ?thesis
  proof (cases "mirror_solve ?c1")
    case (Inl p)
    obtain e c' where p: "p = (e, c')" by (cases p)
    with Inl k have "keeps ?c1 c'" by simp
    then have "keeps ?c1 (add_error (''Calculation error: '' @ exception_message e) c')"
      by (simp add: keeps_def)
    with Inl p show ?thesis by (simp add: calculate_mirror_cases)
  next
    case (Inr c3)
    with k show ?thesis by (auto simp: calculate_mirror_cases)
  qed
qed

lemma lens_reports_inputs:
  "(\<not> fst (calculate_lens c data shape) \<and>
      keeps (load_values data c) (snd (calculate_lens c data shape))) \<or>
   (fst (calculate_lens c data shape) \<and>
      (\<exists>c3. lens_solve (load_values data c) = Inr c3 \<and>
         keeps (load_values data c) c3 \<and>
         snd (calculate_lens c data shape) =
           outcome_state (analyze_image_characteristics ''lens'' (round_values c3))))"
proof -
  let ?c1 = "load_values data c"
  have k: "keeps ?c1 (outcome_state (lens_solve ?c1))" by (rule keeps_lens_solve)
  show ?thesis
  proof (cases "lens_solve ?c1")
    case (Inl p)
    obtain e c' where p: "p = (e, c')" by (cases p)
    with Inl k have "keeps ?c1 c'" by simp
    then have "keeps ?c1 (add_error (''Calculation error: '' @ exception_message e) c')"
      by (simp add: keeps_def)
    with Inl p show ?thesis by (simp add: calculate_lens_cases)
  next
    case (Inr c3)
    with k show ?thesis by (auto simp: calculate_lens_cases)
  qed
qed

lemma mirror_keeps_supplied:
  "data ''focal_length'' = Some x \<Longrightarrow>
     focal_length (snd (calculate_mirror c data shape)) =
       Some (reported (calculate_mirror c data shape) (mirror_sign shape x))"
  "data ''u'' = Some x \<Longrightarrow>
     u (snd (calculate_mirror c data shape)) = Some (reported (calculate_mirror c data shape) x)"
  "data ''v'' = Some x \<Longrightarrow>
     v (snd (calculate_mirror c data shape)) = Some (reported (calculate_mirror c data shape) x)"
  "data ''h1'' = Some x \<Longrightarrow>
     h1 (snd (calculate_mirror c data shape)) = Some (reported (calculate_mirror c data shape) x)"
  "data ''h2'' = Some x \<Longrightarrow>
     h2 (snd (calculate_mirror c data shape)) = Some (reported (calculate_mirror c data shape) x)"
  using mirror_reports_inputs [of c data shape] by (auto simp: keeps_def reported_def)

lemma lens_keeps_supplied:
  "data ''focal_length'' = Some x \<Longrightarrow>
     focal_length (snd (calculate_lens c data shape)) =
       Some (reported (calculate_lens c data shape) x)"
  "data ''u'' = Some x \<Longrightarrow>
     u (snd (calculate_lens c data shape)) = Some (reported (calculate_lens c data shape) x)"
  "data ''v'' = Some x \<Longrightarrow>
     v (snd (calculate_lens c data shape)) = Some (reported (calculate_lens c data shape) x)"
  "data ''h1'' = Some x \<Longrightarrow>
     h1 (snd (calculate_lens c data shape)) = Some (reported (calculate_lens c data shape) x)"
  "data ''h2'' = Some x \<Longrightarrow>
     h2 (snd (calculate_lens c data shape)) = Some (reported (calculate_lens c data shape) x)"
  using lens_reports_inputs [of c data shape] by (auto simp: keeps_def reported_def)

subsection \<open>From two of the three distances to all five values\<close>

lemma mirror_distances_complete:
  assumes "mirror_distances c = Inr c'"
    and "(focal_length c \<noteq> None \<and> u c \<noteq> None) \<or> (focal_length c \<noteq> None \<and> v c \<noteq> None) \<or>
         (u c \<noteq> None \<and> v c \<noteq> None)"
  shows "focal_length c' \<noteq> None \<and> u c' \<noteq> None \<and> v c' \<noteq> None"
  using assms
  by (auto simp: mirror_distances_def try_eval_fdiv add_error_def
      split: option.splits if_splits)

lemma lens_distances_complete:
  assumes "lens_distances c = Inr c'"
    and "(focal_length c \<noteq> None \<and> u c \<noteq> None) \<or> (focal_length c \<noteq> None \<and> v c \<noteq> None) \<or>
         (u c \<noteq> None \<and> v c \<noteq> None)"
  shows "focal_length c' \<noteq> None \<and> u c' \<noteq> None \<and> v c' \<noteq> None"
  using assms
  by (auto simp: lens_distances_def try_eval_fdiv add_error_def
      split: option.splits if_splits)

lemma mirror_magnification_pairs:
  assumes "mirror_magnification c = Inr c'" and "u c \<noteq> None" and "v c \<noteq> None"
  shows "focal_length c' = focal_length c \<and> u c' = u c \<and> v c' = v c \<and>
         (h1 c' = None \<longleftrightarrow> h2 c' = None)"
  using assms
  by (auto simp: mirror_magnification_def try_eval_fdiv split: option.splits if_splits)

lemma lens_magnification_pairs:
  assumes "lens_magnification c = Inr c'" and "u c \<noteq> None" and "v c \<noteq> None"
  shows "focal_length c' = focal_length c \<and> u c' = u c \<and> v c' = v c \<and>
         (h1 c' = None \<longleftrightarrow> h2 c' = None)"
  using assms
  by (auto simp: lens_magnification_def try_eval_fdiv split: option.splits if_splits)

lemma mirror_heights_known_distances:
  assumes "mirror_heights c = Inr c'" and "u c \<noteq> None" and "v c \<noteq> None"
  shows "c' = c"
  using assms
  by (auto simp: mirror_heights_def try_eval_fdiv split: option.splits if_splits)

lemma lens_heights_known_distances:
  assumes "lens_heights c = Inr c'" and "u c \<noteq> None" and "v c \<noteq> None"
  shows "c' = c"
  using assms
  by (auto simp: lens_heights_def try_eval_fdiv split: option.splits if_splits)

lemma mirror_default_height_complete:
  assumes "mirror_default_height c = Inr c'"
    and "focal_length c \<noteq> None" and "u c \<noteq> None" and "v c \<noteq> None"
    and "h1 c = None \<longleftrightarrow> h2 c = None"
  shows "focal_length c' \<noteq> None \<and> u c' \<noteq> None \<and> v c' \<noteq> None \<and> h1 c' \<noteq> None \<and> h2 c' \<noteq> None"
  using assms
  by (auto simp: mirror_default_height_def try_eval_fdiv Let_def split: option.splits if_splits)

lemma lens_default_height_complete:
  assumes "lens_default_height c = Inr c'"
    and "focal_length c \<noteq> None" and "u c \<noteq> None" and "v c \<noteq> None"
    and "h1 c = None \<longleftrightarrow> h2 c = None"
  shows "focal_length c' \<noteq> None \<and> u c' \<noteq> None \<and> v c' \<noteq> None \<and> h1 c' \<noteq> None \<and> h2 c' \<noteq> None"
  using assms
  by (auto simp: lens_default_height_def try_eval_fdiv Let_def split: option.splits if_splits)

lemma and_then_Inr:
  "and_then r k = Inr c' \<longleftrightarrow> (\<exists>c. r = Inr c \<and> k c = Inr c')"
  by (cases r) auto

lemma mirror_solve_complete:
  assumes "mirror_solve c = Inr c'"
    and "(focal_length c \<noteq> None \<and> u c \<noteq> None) \<or> (focal_length c \<noteq> None \<and> v c \<noteq> None) \<or>
         (u c \<noteq> None \<and> v c \<noteq> None)"
  shows "focal_length c' \<noteq> None \<and> u c' \<noteq> None \<and> v c' \<noteq> None \<and> h1 c' \<noteq> None \<and> h2 c' \<noteq> None"
proof -
  from assms(1) obtain c1 c2 c3 where
    d: "mirror_distances c = Inr c1" and m: "mirror_magnification c1 = Inr c2" and
    h: "mirror_heights c2 = Inr c3" and e: "mirror_default_height c3 = Inr c'"
    unfolding mirror_solve_def and_then_Inr by blast
  from mirror_distances_complete [OF d assms(2)]
  have k1: "focal_length c1 \<noteq> None" "u c1 \<noteq> None" "v c1 \<noteq> None" by simp_all
  from mirror_magnification_pairs [OF m k1(2,3)] k1
  have k2: "focal_length c2 \<noteq> None" "u c2 \<noteq> None" "v c2 \<noteq> None" "h1 c2 = None \<longleftrightarrow> h2 c2 = None"
    by simp_all
  from mirror_heights_known_distances [OF h k2(2,3)] have "c3 = c2" .
  with e k2 show ?thesis by (intro mirror_default_height_complete [of c2 c']) simp_all
qed

lemma lens_solve_complete:
  assumes "lens_solve c = Inr c'"
    and "(focal_length c \<noteq> None \<and> u c \<noteq> None) \<or> (focal_length c \<noteq> None \<and> v c \<noteq> None) \<or>
         (u c \<noteq> None \<and> v c \<noteq> None)"
  shows "focal_length c' \<noteq> None \<and> u c' \<noteq> None \<and> v c' \<noteq> None \<and> h1 c' \<noteq> None \<and> h2 c' \<noteq> None"
proof -
  from assms(1) obtain c1 c2 c3 where
    d: "lens_distances c = Inr c1" and m: "lens_magnification c1 = Inr c2" and
    h: "lens_heights c2 = Inr c3" and e: "lens_default_height c3 = Inr c'"
    unfolding lens_solve_def and_then_Inr by blast
  from lens_distances_complete [OF d assms(2)]
  have k1: "focal_length c1 \<noteq> None" "u c1 \<noteq> None" "v c1 \<noteq> None" by simp_all
  from lens_magnification_pairs [OF m k1(2,3)] k1
  have k2: "focal_length c2 \<noteq> None" "u c2 \<noteq> None" "v c2 \<noteq> None" "h1 c2 = None \<longleftrightarrow> h2 c2 = None"
    by simp_all
  from lens_heights_known_distances [OF h k2(2,3)] have "c3 = c2" .
  with e k2 show ?thesis by (intro lens_default_height_complete [of c2 c']) simp_all
qed

subsection \<open>Computed values stay, step by step\<close>

lemma mirror_steps_keep:
  assumes "mirror_distances c = Inr c1"
  shows "keeps c c1" and "keeps c1 (outcome_state (mirror_magnification c1))"
    and "mirror_magnification c1 = Inr c2 \<Longrightarrow> keeps c2 (outcome_state (mirror_heights c2))"
    and "mirror_magnification c1 = Inr c2 \<Longrightarrow> mirror_heights c2 = Inr c3 \<Longrightarrow>
           keeps c3 (outcome_state (mirror_default_height c3)) \<and>
           mirror_solve c = mirror_default_height c3"
proof -
  from keeps_mirror_distances [of c] assms show "keeps c c1" by simp
  show "keeps c1 (outcome_state (mirror_magnification c1))" by (rule keeps_mirror_magnification)
  show "keeps c2 (outcome_state (mirror_heights c2))" by (rule keeps_mirror_heights)
  assume m: "mirror_magnification c1 = Inr c2" and h: "mirror_heights c2 = Inr c3"
  from m have "heights_inv c2" by (rule inv_mirror_magnification)
  with h have "heights_inv c3" by (rule inv_mirror_heights)
  then have "keeps c3 (outcome_state (mirror_default_height c3))"
    by (rule keeps_mirror_default_height)
  moreover from assms m h have "mirror_solve c = mirror_default_height c3"
    by (simp add: mirror_solve_def)
  ultimately show "keeps c3 (outcome_state (mirror_default_height c3)) \<and>
      mirror_solve c = mirror_default_height c3" ..
qed

lemma lens_steps_keep:
  assumes "lens_distances c = Inr c1"
  shows "keeps c c1" and "keeps c1 (outcome_state (lens_magnification c1))"
    and "lens_magnification c1 = Inr c2 \<Longrightarrow> keeps c2 (outcome_state (lens_heights c2))"
    and "lens_magnification c1 = Inr c2 \<Longrightarrow> lens_heights c2 = Inr c3 \<Longrightarrow>
           keeps c3 (outcome_state (lens_default_height c3)) \<and>
           lens_solve c = lens_default_height c3"
proof -
  from keeps_lens_distances [of c] assms show "keeps c c1" by simp
  show "keeps c1 (outcome_state (lens_magnification c1))" by (rule keeps_lens_magnification)
  show "keeps c2 (outcome_state (lens_heights c2))" by (rule keeps_lens_heights)
  assume m: "lens_magnification c1 = Inr c2" and h: "lens_heights c2 = Inr c3"
  from m have "heights_inv c2" by (rule inv_lens_magnification)
  with h have "heights_inv c3" by (rule inv_lens_heights)
  then have "keeps c3 (outcome_state (lens_default_height c3))"
    by (rule keeps_lens_default_height)
  moreover from assms m h have "lens_solve c = lens_default_height c3"
    by (simp add: lens_solve_def)
  ultimately show "keeps c3 (outcome_state (lens_default_height c3)) \<and>
      lens_solve c = lens_default_height c3" ..
qed

lemma mirror_final_values:
  "focal_length (snd (calculate_mirror c data shape)) =
     map_option (reported (calculate_mirror c data shape))
       (focal_length (outcome_state (mirror_solve (mirror_sign_convention shape (load_values data c)))))"
  "u (snd (calculate_mirror c data shape)) =
     map_option (reported (calculate_mirror c data shape))
       (u (outcome_state (mirror_solve (mirror_sign_convention shape (load_values data c)))))"
  "v (snd (calculate_mirror c data shape)) =
     map_option (reported (calculate_mirror c data shape))
       (v (outcome_state (mirror_solve (mirror_sign_convention shape (load_values data c)))))"
  "h1 (snd (calculate_mirror c data shape)) =
     map_option (reported (calculate_mirror c data shape))
       (h1 (outcome_state (mirror_solve (mirror_sign_convention shape (load_values data c)))))"
  "h2 (snd (calculate_mirror c data shape)) =
     map_option (reported (calculate_mirror c data shape))
       (h2 (outcome_state (mirror_solve (mirror_sign_convention shape (load_values data c)))))"
  "fst (calculate_mirror c data shape) \<longleftrightarrow>
     (\<exists>c'. mirror_solve (mirror_sign_convention shape (load_values data c)) = Inr c')"
  by (cases "mirror_solve (mirror_sign_convention shape (load_values data c))";
      auto simp: calculate_mirror_cases reported_def option.map_ident
        map_option.identity id_def cong: option.map_cong)+

lemma lens_final_values:
  "focal_length (snd (calculate_lens c data shape)) =
     map_option (reported (calculate_lens c data shape))
       (focal_length (outcome_state (lens_solve (load_values data c))))"
  "u (snd (calculate_lens c data shape)) =
     map_option (reported (calculate_lens c data shape))
       (u (outcome_state (lens_solve (load_values data c))))"
  "v (snd (calculate_lens c data shape)) =
     map_option (reported (calculate_lens c data shape))
       (v (outcome_state (lens_solve (load_values data c))))"
  "h1 (snd (calculate_lens c data shape)) =
     map_option (reported (calculate_lens c data shape))
       (h1 (outcome_state (lens_solve (load_values data c))))"
  "h2 (snd (calculate_lens c data shape)) =
     map_option (reported (calculate_lens c data shape))
       (h2 (outcome_state (lens_solve (load_values data c))))"
  "fst (calculate_lens c data shape) \<longleftrightarrow> (\<exists>c'. lens_solve (load_values data c) = Inr c')"
  by (cases "lens_solve (load_values data c)";
      auto simp: calculate_lens_cases reported_def option.map_ident
        map_option.identity id_def cong: option.map_cong)+

subsection \<open>Fewer than two of the three distances\<close>

lemma mirror_solve_few:
  assumes "\<not> ((focal_length c \<noteq> None \<and> u c \<noteq> None) \<or> (focal_length c \<noteq> None \<and> v c \<noteq> None) \<or>
               (u c \<noteq> None \<and> v c \<noteq> None))"
  shows "mirror_solve c = and_then (mirror_heights c) mirror_default_height"
proof -
  from assms have "mirror_distances c = Inr c"
    by (cases "focal_length c"; cases "u c"; cases "v c") (simp_all add: mirror_distances_def)
  moreover from assms have "mirror_magnification c = Inr c"
    by (cases "u c"; cases "v c") (simp_all add: mirror_magnification_def)
  ultimately show ?thesis by (simp add: mirror_solve_def)
qed

lemma lens_solve_few:
  assumes "\<not> ((focal_length c \<noteq> None \<and> u c \<noteq> None) \<or> (focal_length c \<noteq> None \<and> v c \<noteq> None) \<or>
               (u c \<noteq> None \<and> v c \<noteq> None))"
  shows "lens_solve c = and_then (lens_heights c) lens_default_height"
proof -
  from assms have "lens_distances c = Inr c"
    by (cases "focal_length c"; cases "u c"; cases "v c") (simp_all add: lens_distances_def)
  moreover from assms have "lens_magnification c = Inr c"
    by (cases "u c"; cases "v c") (simp_all add: lens_magnification_def)
  ultimately show ?thesis by (simp add: lens_solve_def)
qed

lemma mirror_heights_fields:
  "focal_length (outcome_state (mirror_heights c)) = focal_length c"
  "h1 (outcome_state (mirror_heights c)) = h1 c"
  "u c = None \<Longrightarrow> v c = None \<Longrightarrow>
     u (outcome_state (mirror_heights c)) = None \<and> v (outcome_state (mirror_heights c)) = None"
  by (cases "h1 c"; cases "h2 c"; cases "u c"; cases "v c";
      simp add: mirror_heights_def try_eval_fdiv)+

lemma mirror_default_height_fields:
  "focal_length (outcome_state (mirror_default_height c)) = focal_length c"
  "u (outcome_state (mirror_default_height c)) = u c"
  "v (outcome_state (mirror_default_height c)) = v c"
  by (cases "h1 c"; cases "focal_length c"; cases "u c"; cases "v c";
      simp add: mirror_default_height_def try_eval_fdiv Let_def)+

lemma mirror_default_height_succeeds:
  assumes "h1 c \<noteq> None \<or> u c = None \<or> v c = None"
  shows "\<exists>c'. mirror_default_height c = Inr c'"
  using assms
  by (cases "h1 c"; cases "focal_length c"; cases "u c"; cases "v c")
     (simp_all add: mirror_default_height_def Let_def)

lemma mirror_heights_succeeds:
  assumes "\<not> ((focal_length c \<noteq> None \<and> u c \<noteq> None) \<or> (focal_length c \<noteq> None \<and> v c \<noteq> None) \<or>
               (u c \<noteq> None \<and> v c \<noteq> None))"
    and "h1 c = None \<or> h2 c = None \<or> (h1 c \<noteq> Some (Fin 0) \<and> v c = None)"
  shows "\<exists>c'. mirror_heights c = Inr c' \<and> focal_length c' = focal_length c \<and> h1 c' = h1 c \<and>
           (h1 c = None \<longrightarrow> c' = c)"
  using assms
  by (cases "h1 c"; cases "h2 c"; cases "u c"; cases "v c")
     (simp_all add: mirror_heights_def try_eval_fdiv)

lemma mirror_heights_focal_length:
  "focal_length (outcome_state (and_then (mirror_heights c) mirror_default_height)) =
     focal_length c"
proof (cases "mirror_heights c")
  case (Inl p)
  with mirror_heights_fields(1) [of c] show ?thesis by (cases p) simp
next
  case (Inr c')
  with mirror_heights_fields(1) [of c] mirror_default_height_fields(1) [of c'] show ?thesis by simp
qed

lemma mirror_heights_no_distance:
  assumes "u c = None" and "v c = None"
  shows "u (outcome_state (and_then (mirror_heights c) mirror_default_height)) = None \<and>
         v (outcome_state (and_then (mirror_heights c) mirror_default_height)) = None"
proof (cases "mirror_heights c")
  case (Inl p)
  with mirror_heights_fields(3) [OF assms] show ?thesis by (cases p) simp
next
  case (Inr c')
  with mirror_heights_fields(3) [OF assms] mirror_default_height_fields(2,3) [of c'] show ?thesis
    by simp
qed

lemma mirror_heights_succeed:
  assumes few: "\<not> ((focal_length c \<noteq> None \<and> u c \<noteq> None) \<or> (focal_length c \<noteq> None \<and> v c \<noteq> None) \<or>
               (u c \<noteq> None \<and> v c \<noteq> None))"
    and hs: "h1 c = None \<or> h2 c = None \<or> (h1 c \<noteq> Some (Fin 0) \<and> v c = None)"
  shows "\<exists>c'. and_then (mirror_heights c) mirror_default_height = Inr c'"
proof -
  from mirror_heights_succeeds [OF few hs] obtain c' where
    h: "mirror_heights c = Inr c'" and f: "h1 c' = h1 c" and same: "h1 c = None \<longrightarrow> c' = c"
    by (elim exE conjE)
  from few f same have "h1 c' \<noteq> None \<or> u c' = None \<or> v c' = None" by (cases "h1 c") auto
  from mirror_default_height_succeeds [OF this] h show ?thesis by simp
qed

lemma lens_heights_fields:
  "focal_length (outcome_state (lens_heights c)) = focal_length c"
  "h1 (outcome_state (lens_heights c)) = h1 c"
  "u c = None \<Longrightarrow> v c = None \<Longrightarrow>
     u (outcome_state (lens_heights c)) = None \<and> v (outcome_state (lens_heights c)) = None"
  by (cases "h1 c"; cases "h2 c"; cases "u c"; cases "v c";
      simp add: lens_heights_def try_eval_fdiv)+

lemma lens_default_height_fields:
  "focal_length (outcome_state (lens_default_height c)) = focal_length c"
  "u (outcome_state (lens_default_height c)) = u c"
  "v (outcome_state (lens_default_height c)) = v c"
  by (cases "h1 c"; cases "focal_length c"; cases "u c"; cases "v c";
      simp add: lens_default_height_def try_eval_fdiv Let_def)+

lemma lens_default_height_succeeds:
  assumes "h1 c \<noteq> None \<or> u c = None \<or> v c = None"
  shows "\<exists>c'. lens_default_height c = Inr c'"
  using assms
  by (cases "h1 c"; cases "focal_length c"; cases "u c"; cases "v c")
     (simp_all add: lens_default_height_def Let_def)

lemma lens_heights_succeeds:
  assumes "\<not> ((focal_length c \<noteq> None \<and> u c \<noteq> None) \<or> (focal_length c \<noteq> None \<and> v c \<noteq> None) \<or>
               (u c \<noteq> None \<and> v c \<noteq> None))"
    and "h1 c = None \<or> h2 c = None \<or> (h1 c \<noteq> Some (Fin 0) \<and> v c = None)"
  shows "\<exists>c'. lens_heights c = Inr c' \<and> focal_length c' = focal_length c \<and> h1 c' = h1 c \<and>
           (h1 c = None \<longrightarrow> c' = c)"
  using assms
  by (cases "h1 c"; cases "h2 c"; cases "u c"; cases "v c")
     (simp_all add: lens_heights_def try_eval_fdiv)

lemma lens_heights_focal_length:
  "focal_length (outcome_state (and_then (lens_heights c) lens_default_height)) =
     focal_length c"
proof (cases "lens_heights c")
  case (Inl p)
  with lens_heights_fields(1) [of c] show ?thesis by (cases p) simp
next
  case (Inr c')
  with lens_heights_fields(1) [of c] lens_default_height_fields(1) [of c'] show ?thesis by simp
qed

lemma lens_heights_no_distance:
  assumes "u c = None" and "v c = None"
  shows "u (outcome_state (and_then (lens_heights c) lens_default_height)) = None \<and>
         v (outcome_state (and_then (lens_heights c) lens_default_height)) = None"
proof (cases "lens_heights c")
  case (Inl p)
  with lens_heights_fields(3) [OF assms] show ?thesis by (cases p) simp
next
  case (Inr c')
  with lens_heights_fields(3) [OF assms] lens_default_height_fields(2,3) [of c'] show ?thesis
    by simp
qed

lemma lens_heights_succeed:
  assumes few: "\<not> ((focal_length c \<noteq> None \<and> u c \<noteq> None) \<or> (focal_length c \<noteq> None \<and> v c \<noteq> None) \<or>
               (u c \<noteq> None \<and> v c \<noteq> None))"
    and hs: "h1 c = None \<or> h2 c = None \<or> (h1 c \<noteq> Some (Fin 0) \<and> v c = None)"
  shows "\<exists>c'. and_then (lens_heights c) lens_default_height = Inr c'"
proof -
  from lens_heights_succeeds [OF few hs] obtain c' where
    h: "lens_heights c = Inr c'" and f: "h1 c' = h1 c" and same: "h1 c = None \<longrightarrow> c' = c"
    by (elim exE conjE)
  from few f same have "h1 c' \<noteq> None \<or> u c' = None \<or> v c' = None" by (cases "h1 c") auto
  from lens_default_height_succeeds [OF this] h show ?thesis by simp
qed

lemma mirror_few_distances:
  assumes "\<not> ((data ''focal_length'' \<noteq> None \<and> data ''u'' \<noteq> None) \<or>
               (data ''focal_length'' \<noteq> None \<and> data ''v'' \<noteq> None) \<or>
               (data ''u'' \<noteq> None \<and> data ''v'' \<noteq> None))"
  shows "data ''focal_length'' = None \<Longrightarrow>
           focal_length (snd (calculate_mirror c data shape)) = None"
    and "data ''u'' = None \<Longrightarrow> data ''v'' = None \<Longrightarrow>
           u (snd (calculate_mirror c data shape)) = None \<and>
           v (snd (calculate_mirror c data shape)) = None"
    and "data ''h1'' = None \<or> data ''h2'' = None \<or>
           (data ''h1'' \<noteq> Some (Fin 0) \<and> data ''v'' = None) \<Longrightarrow>
           fst (calculate_mirror c data shape)"
proof -
  let ?c0 = "mirror_sign_convention shape (load_values data c)"
  from assms have few: "\<not> ((focal_length ?c0 \<noteq> None \<and> u ?c0 \<noteq> None) \<or>
      (focal_length ?c0 \<noteq> None \<and> v ?c0 \<noteq> None) \<or> (u ?c0 \<noteq> None \<and> v ?c0 \<noteq> None))"
    by auto
  note s = mirror_solve_few [OF few]
  show "focal_length (snd (calculate_mirror c data shape)) = None"
    if "data ''focal_length'' = None"
    using that by (simp add: mirror_final_values(1) s mirror_heights_focal_length)
  show "u (snd (calculate_mirror c data shape)) = None \<and>
      v (snd (calculate_mirror c data shape)) = None"
    if "data ''u'' = None" and "data ''v'' = None"
  proof -
    from that have "u ?c0 = None" "v ?c0 = None" by simp_all
    from mirror_heights_no_distance [OF this] show ?thesis
      by (simp add: mirror_final_values(2,3) s)
  qed
  show "fst (calculate_mirror c data shape)"
    if "data ''h1'' = None \<or> data ''h2'' = None \<or>
        (data ''h1'' \<noteq> Some (Fin 0) \<and> data ''v'' = None)"
  proof -
    from that have "h1 ?c0 = None \<or> h2 ?c0 = None \<or> (h1 ?c0 \<noteq> Some (Fin 0) \<and> v ?c0 = None)"
      by simp
    from mirror_heights_succeed [OF few this] show ?thesis
      by (simp add: mirror_final_values(6) s)
  qed
qed

lemma lens_few_distances:
  assumes "\<not> ((data ''focal_length'' \<noteq> None \<and> data ''u'' \<noteq> None) \<or>
               (data ''focal_length'' \<noteq> None \<and> data ''v'' \<noteq> None) \<or>
               (data ''u'' \<noteq> None \<and> data ''v'' \<noteq> None))"
  shows "data ''focal_length'' = None \<Longrightarrow>
           focal_length (snd (calculate_lens c data shape)) = None"
    and "data ''u'' = None \<Longrightarrow> data ''v'' = None \<Longrightarrow>
           u (snd (calculate_lens c data shape)) = None \<and>
           v (snd (calculate_lens c data shape)) = None"
    and "data ''h1'' = None \<or> data ''h2'' = None \<or>
           (data ''h1'' \<noteq> Some (Fin 0) \<and> data ''v'' = None) \<Longrightarrow>
           fst (calculate_lens c data shape)"
proof -
  let ?c0 = "load_values data c"
  from assms have few: "\<not> ((focal_length ?c0 \<noteq> None \<and> u ?c0 \<noteq> None) \<or>
      (focal_length ?c0 \<noteq> None \<and> v ?c0 \<noteq> None) \<or> (u ?c0 \<noteq> None \<and> v ?c0 \<noteq> None))"
    by (simp add: load_values_def)
  note s = lens_solve_few [OF few]
  show "focal_length (snd (calculate_lens c data shape)) = None"
    if "data ''focal_length'' = None"
    using that by (simp add: lens_final_values(1) s lens_heights_focal_length)
  show "u (snd (calculate_lens c data shape)) = None \<and>
      v (snd (calculate_lens c data shape)) = None"
    if "data ''u'' = None" and "data ''v'' = None"
  proof -
    from that have "u ?c0 = None" "v ?c0 = None" by simp_all
    from lens_heights_no_distance [OF this] show ?thesis
      by (simp add: lens_final_values(2,3) s)
  qed
  show "fst (calculate_lens c data shape)"
    if "data ''h1'' = None \<or> data ''h2'' = None \<or>
        (data ''h1'' \<noteq> Some (Fin 0) \<and> data ''v'' = None)"
  proof -
    from that have "h1 ?c0 = None \<or> h2 ?c0 = None \<or> (h1 ?c0 \<noteq> Some (Fin 0) \<and> v ?c0 = None)"
      by simp
    from lens_heights_succeed [OF few this] show ?thesis
      by (simp add: lens_final_values(6) s)
  qed
qed

text \<open>
  Claim C4, as the code has it. When at least two of \<open>f\<close>, \<open>u\<close> and \<open>v\<close> are supplied,
  a calculation that succeeds leaves none of the five values unknown. For every input,
  each supplied value is what the calculation reports for it, after the sign convention
  for a mirror's \<open>f\<close> and the final rounding and nothing else. The same holds for
  computed values: every value that is present before one of the four solving steps,
  supplied or computed by an earlier step, is the same after that step, and the values
  after the last step are the ones reported, rounded when the calculation succeeds. When
  fewer than two of \<open>f\<close>, \<open>u\<close> and \<open>v\<close> are supplied, an \<open>f\<close> that is not supplied stays
  unknown, \<open>u\<close> and \<open>v\<close> stay unknown when neither is supplied, and the calculation
  succeeds if the two heights are not both supplied, or if \<open>h1\<close> is not zero and \<open>v\<close> is
  not supplied.
\<close>

theorem distance_pair_resolves_all:
  "(((data ''focal_length'' \<noteq> None \<and> data ''u'' \<noteq> None) \<or>
    (data ''focal_length'' \<noteq> None \<and> data ''v'' \<noteq> None) \<or>
    (data ''u'' \<noteq> None \<and> data ''v'' \<noteq> None) \<longrightarrow>
      (fst (calculate_mirror c data shape) \<longrightarrow>
         focal_length (snd (calculate_mirror c data shape)) \<noteq> None \<and>
         u (snd (calculate_mirror c data shape)) \<noteq> None \<and>
         v (snd (calculate_mirror c data shape)) \<noteq> None \<and>
         h1 (snd (calculate_mirror c data shape)) \<noteq> None \<and>
         h2 (snd (calculate_mirror c data shape)) \<noteq> None) \<and>
      (fst (calculate_lens c data shape) \<longrightarrow>
         focal_length (snd (calculate_lens c data shape)) \<noteq> None \<and>
         u (snd (calculate_lens c data shape)) \<noteq> None \<and>
         v (snd (calculate_lens c data shape)) \<noteq> None \<and>
         h1 (snd (calculate_lens c data shape)) \<noteq> None \<and>
         h2 (snd (calculate_lens c data shape)) \<noteq> None)) \<and>
   (data ''focal_length'' = Some x \<longrightarrow>
      focal_length (snd (calculate_mirror c data shape)) =
        Some (reported (calculate_mirror c data shape) (mirror_sign shape x)) \<and>
      focal_length (snd (calculate_lens c data shape)) =
        Some (reported (calculate_lens c data shape) x)) \<and>
   (data ''u'' = Some x \<longrightarrow>
      u (snd (calculate_mirror c data shape)) =
        Some (reported (calculate_mirror c data shape) x) \<and>
      u (snd (calculate_lens c data shape)) = Some (reported (calculate_lens c data shape) x)) \<and>
   (data ''v'' = Some x \<longrightarrow>
      v (snd (calculate_mirror c data shape)) =
        Some (reported (calculate_mirror c data shape) x) \<and>
      v (snd (calculate_lens c data shape)) = Some (reported (calculate_lens c data shape) x)) \<and>
   (data ''h1'' = Some x \<longrightarrow>
      h1 (snd (calculate_mirror c data shape)) =
        Some (reported (calculate_mirror c data shape) x) \<and>
      h1 (snd (calculate_lens c data shape)) = Some (reported (calculate_lens c data shape) x)) \<and>
   (data ''h2'' = Some x \<longrightarrow>
      h2 (snd (calculate_mirror c data shape)) =
        Some (reported (calculate_mirror c data shape) x) \<and>
      h2 (snd (calculate_lens c data shape)) = Some (reported (calculate_lens c data shape) x))) \<and>
   (keeps (mirror_sign_convention shape (load_values data c))
      (outcome_state (mirror_distances (mirror_sign_convention shape (load_values data c)))) \<and>
   (mirror_distances (mirror_sign_convention shape (load_values data c)) = Inr c1 \<longrightarrow>
      keeps c1 (outcome_state (mirror_magnification c1)) \<and>
      (mirror_magnification c1 = Inr c2 \<longrightarrow>
         keeps c2 (outcome_state (mirror_heights c2)) \<and>
         (mirror_heights c2 = Inr c3 \<longrightarrow>
            keeps c3 (outcome_state (mirror_default_height c3)) \<and>
            mirror_solve (mirror_sign_convention shape (load_values data c)) =
              mirror_default_height c3)))) \<and>
   (keeps (load_values data c) (outcome_state (lens_distances (load_values data c))) \<and>
   (lens_distances (load_values data c) = Inr c1 \<longrightarrow>
      keeps c1 (outcome_state (lens_magnification c1)) \<and>
      (lens_magnification c1 = Inr c2 \<longrightarrow>
         keeps c2 (outcome_state (lens_heights c2)) \<and>
         (lens_heights c2 = Inr c3 \<longrightarrow>
            keeps c3 (outcome_state (lens_default_height c3)) \<and>
            lens_solve (load_values data c) = lens_default_height c3)))) \<and>
   measurements (snd (calculate_mirror c data shape)) key =
     map_option (reported (calculate_mirror c data shape))
       (measurements
          (outcome_state (mirror_solve (mirror_sign_convention shape (load_values data c)))) key) \<and>
   measurements (snd (calculate_lens c data shape)) key =
     map_option (reported (calculate_lens c data shape))
       (measurements (outcome_state (lens_solve (load_values data c))) key) \<and>
   (\<not> ((data ''focal_length'' \<noteq> None \<and> data ''u'' \<noteq> None) \<or>
         (data ''focal_length'' \<noteq> None \<and> data ''v'' \<noteq> None) \<or>
         (data ''u'' \<noteq> None \<and> data ''v'' \<noteq> None)) \<longrightarrow>
      (data ''focal_length'' = None \<longrightarrow>
         focal_length (snd (calculate_mirror c data shape)) = None \<and>
         focal_length (snd (calculate_lens c data shape)) = None) \<and>
      (data ''u'' = None \<and> data ''v'' = None \<longrightarrow>
         u (snd (calculate_mirror c data shape)) = None \<and>
         v (snd (calculate_mirror c data shape)) = None \<and>
         u (snd (calculate_lens c data shape)) = None \<and>
         v (snd (calculate_lens c data shape)) = None) \<and>
      (data ''h1'' = None \<or> data ''h2'' = None \<or>
       (data ''h1'' \<noteq> Some (Fin 0) \<and> data ''v'' = None) \<longrightarrow>
         fst (calculate_mirror c data shape) \<and> fst (calculate_lens c data shape)))"
proof -
  have mirror: "focal_length (snd (calculate_mirror c data shape)) \<noteq> None \<and>
         u (snd (calculate_mirror c data shape)) \<noteq> None \<and>
         v (snd (calculate_mirror c data shape)) \<noteq> None \<and>
         h1 (snd (calculate_mirror c data shape)) \<noteq> None \<and>
         h2 (snd (calculate_mirror c data shape)) \<noteq> None"
    if two: "(data ''focal_length'' \<noteq> None \<and> data ''u'' \<noteq> None) \<or>
      (data ''focal_length'' \<noteq> None \<and> data ''v'' \<noteq> None) \<or>
      (data ''u'' \<noteq> None \<and> data ''v'' \<noteq> None)"
      and ok: "fst (calculate_mirror c data shape)"
  proof -
    let ?c1 = "mirror_sign_convention shape (load_values data c)"
    from ok mirror_reports_inputs [of c data shape] obtain c3 where
      s: "mirror_solve ?c1 = Inr c3" and
      r: "snd (calculate_mirror c data shape) =
            outcome_state (analyze_image_characteristics ''mirror'' (round_values c3))"
      by blast
    from two have "(focal_length ?c1 \<noteq> None \<and> u ?c1 \<noteq> None) \<or>
        (focal_length ?c1 \<noteq> None \<and> v ?c1 \<noteq> None) \<or> (u ?c1 \<noteq> None \<and> v ?c1 \<noteq> None)"
      by simp
    from mirror_solve_complete [OF s this] r show ?thesis by simp
  qed
  have lens: "focal_length (snd (calculate_lens c data shape)) \<noteq> None \<and>
         u (snd (calculate_lens c data shape)) \<noteq> None \<and>
         v (snd (calculate_lens c data shape)) \<noteq> None \<and>
         h1 (snd (calculate_lens c data shape)) \<noteq> None \<and>
         h2 (snd (calculate_lens c data shape)) \<noteq> None"
    if two: "(data ''focal_length'' \<noteq> None \<and> data ''u'' \<noteq> None) \<or>
      (data ''focal_length'' \<noteq> None \<and> data ''v'' \<noteq> None) \<or>
      (data ''u'' \<noteq> None \<and> data ''v'' \<noteq> None)"
      and ok: "fst (calculate_lens c data shape)"
  proof -
    let ?c1 = "load_values data c"
    from ok lens_reports_inputs [of c data shape] obtain c3 where
      s: "lens_solve ?c1 = Inr c3" and
      r: "snd (calculate_lens c data shape) =
            outcome_state (analyze_image_characteristics ''lens'' (round_values c3))"
      by blast
    from two have "(focal_length ?c1 \<noteq> None \<and> u ?c1 \<noteq> None) \<or>
        (focal_length ?c1 \<noteq> None \<and> v ?c1 \<noteq> None) \<or> (u ?c1 \<noteq> None \<and> v ?c1 \<noteq> None)"
      by simp
    from lens_solve_complete [OF s this] r show ?thesis by simp
  qed
  note ms = mirror_keeps_supplied [where data = data and x = x and c = c and shape = shape]
  note ls = lens_keeps_supplied [where data = data and x = x and c = c and shape = shape]
  have supplied: "((data ''focal_length'' \<noteq> None \<and> data ''u'' \<noteq> None) \<or>
    (data ''focal_length'' \<noteq> None \<and> data ''v'' \<noteq> None) \<or>
    (data ''u'' \<noteq> None \<and> data ''v'' \<noteq> None) \<longrightarrow>
      (fst (calculate_mirror c data shape) \<longrightarrow>
         focal_length (snd (calculate_mirror c data shape)) \<noteq> None \<and>
         u (snd (calculate_mirror c data shape)) \<noteq> None \<and>
         v (snd (calculate_mirror c data shape)) \<noteq> None \<and>
         h1 (snd (calculate_mirror c data shape)) \<noteq> None \<and>
         h2 (snd (calculate_mirror c data shape)) \<noteq> None) \<and>
      (fst (calculate_lens c data shape) \<longrightarrow>
         focal_length (snd (calculate_lens c data shape)) \<noteq> None \<and>
         u (snd (calculate_lens c data shape)) \<noteq> None \<and>
         v (snd (calculate_lens c data shape)) \<noteq> None \<and>
         h1 (snd (calculate_lens c data shape)) \<noteq> None \<and>
         h2 (snd (calculate_lens c data shape)) \<noteq> None)) \<and>
   (data ''focal_length'' = Some x \<longrightarrow>
      focal_length (snd (calculate_mirror c data shape)) =
        Some (reported (calculate_mirror c data shape) (mirror_sign shape x)) \<and>
      focal_length (snd (calculate_lens c data shape)) =
        Some (reported (calculate_lens c data shape) x)) \<and>
   (data ''u'' = Some x \<longrightarrow>
      u (snd (calculate_mirror c data shape)) =
        Some (reported (calculate_mirror c data shape) x) \<and>
      u (snd (calculate_lens c data shape)) = Some (reported (calculate_lens c data shape) x)) \<and>
   (data ''v'' = Some x \<longrightarrow>
      v (snd (calculate_mirror c data shape)) =
        Some (reported (calculate_mirror c data shape) x) \<and>
      v (snd (calculate_lens c data shape)) = Some (reported (calculate_lens c data shape) x)) \<and>
   (data ''h1'' = Some x \<longrightarrow>
      h1 (snd (calculate_mirror c data shape)) =
        Some (reported (calculate_mirror c data shape) x) \<and>
      h1 (snd (calculate_lens c data shape)) = Some (reported (calculate_lens c data shape) x)) \<and>
   (data ''h2'' = Some x \<longrightarrow>
      h2 (snd (calculate_mirror c data shape)) =
        Some (reported (calculate_mirror c data shape) x) \<and>
      h2 (snd (calculate_lens c data shape)) = Some (reported (calculate_lens c data shape) x))"
  proof (intro conjI impI)
    assume "data ''focal_length'' = Some x"
    then show "focal_length (snd (calculate_mirror c data shape)) =
        Some (reported (calculate_mirror c data shape) (mirror_sign shape x))"
      and "focal_length (snd (calculate_lens c data shape)) =
        Some (reported (calculate_lens c data shape) x)"
      by (rule ms(1) ls(1))+
  next
    assume "data ''u'' = Some x"
    then show "u (snd (calculate_mirror c data shape)) =
        Some (reported (calculate_mirror c data shape) x)"
      and "u (snd (calculate_lens c data shape)) = Some (reported (calculate_lens c data shape) x)"
      by (rule ms(2) ls(2))+
  next
    assume "data ''v'' = Some x"
    then show "v (snd (calculate_mirror c data shape)) =
        Some (reported (calculate_mirror c data shape) x)"
      and "v (snd (calculate_lens c data shape)) = Some (reported (calculate_lens c data shape) x)"
      by (rule ms(3) ls(3))+
  next
    assume "data ''h1'' = Some x"
    then show "h1 (snd (calculate_mirror c data shape)) =
        Some (reported (calculate_mirror c data shape) x)"
      and "h1 (snd (calculate_lens c data shape)) = Some (reported (calculate_lens c data shape) x)"
      by (rule ms(4) ls(4))+
  next
    assume "data ''h2'' = Some x"
    then show "h2 (snd (calculate_mirror c data shape)) =
        Some (reported (calculate_mirror c data shape) x)"
      and "h2 (snd (calculate_lens c data shape)) = Some (reported (calculate_lens c data shape) x)"
      by (rule ms(5) ls(5))+
  qed (use mirror lens in blast)+
  have sm: "keeps (mirror_sign_convention shape (load_values data c)) (outcome_state (mirror_distances (mirror_sign_convention shape (load_values data c)))) \<and>
    (mirror_distances (mirror_sign_convention shape (load_values data c)) = Inr c1 \<longrightarrow>
       keeps c1 (outcome_state (mirror_magnification c1)) \<and>
       (mirror_magnification c1 = Inr c2 \<longrightarrow>
          keeps c2 (outcome_state (mirror_heights c2)) \<and>
          (mirror_heights c2 = Inr c3 \<longrightarrow>
             keeps c3 (outcome_state (mirror_default_height c3)) \<and>
             mirror_solve (mirror_sign_convention shape (load_values data c)) = mirror_default_height c3)))"
  proof (intro conjI impI)
    show "keeps (mirror_sign_convention shape (load_values data c)) (outcome_state (mirror_distances (mirror_sign_convention shape (load_values data c))))"
      by (rule keeps_mirror_distances)
  next
    assume d: "mirror_distances (mirror_sign_convention shape (load_values data c)) = Inr c1"
    show "keeps c1 (outcome_state (mirror_magnification c1))" by (rule keeps_mirror_magnification)
  next
    assume d: "mirror_distances (mirror_sign_convention shape (load_values data c)) = Inr c1" and m: "mirror_magnification c1 = Inr c2"
    show "keeps c2 (outcome_state (mirror_heights c2))" by (rule keeps_mirror_heights)
  next
    assume d: "mirror_distances (mirror_sign_convention shape (load_values data c)) = Inr c1" and m: "mirror_magnification c1 = Inr c2"
      and h: "mirror_heights c2 = Inr c3"
    from mirror_steps_keep(4) [OF d m h]
    show "keeps c3 (outcome_state (mirror_default_height c3))"
      and "mirror_solve (mirror_sign_convention shape (load_values data c)) = mirror_default_height c3"
      by simp_all
  qed
  have sl: "keeps (load_values data c) (outcome_state (lens_distances (load_values data c))) \<and>
    (lens_distances (load_values data c) = Inr c1 \<longrightarrow>
       keeps c1 (outcome_state (lens_magnification c1)) \<and>
       (lens_magnification c1 = Inr c2 \<longrightarrow>
          keeps c2 (outcome_state (lens_heights c2)) \<and>
          (lens_heights c2 = Inr c3 \<longrightarrow>
             keeps c3 (outcome_state (lens_default_height c3)) \<and>
             lens_solve (load_values data c) = lens_default_height c3)))"
  proof (intro conjI impI)
    show "keeps (load_values data c) (outcome_state (lens_distances (load_values data c)))"
      by (rule keeps_lens_distances)
  next
    assume d: "lens_distances (load_values data c) = Inr c1"
    show "keeps c1 (outcome_state (lens_magnification c1))" by (rule keeps_lens_magnification)
  next
    assume d: "lens_distances (load_values data c) = Inr c1" and m: "lens_magnification c1 = Inr c2"
    show "keeps c2 (outcome_state (lens_heights c2))" by (rule keeps_lens_heights)
  next
    assume d: "lens_distances (load_values data c) = Inr c1" and m: "lens_magnification c1 = Inr c2"
      and h: "lens_heights c2 = Inr c3"
    from lens_steps_keep(4) [OF d m h]
    show "keeps c3 (outcome_state (lens_default_height c3))"
      and "lens_solve (load_values data c) = lens_default_height c3"
      by simp_all
  qed
  have fm: "measurements (snd (calculate_mirror c data shape)) key =
      map_option (reported (calculate_mirror c data shape))
        (measurements (outcome_state (mirror_solve (mirror_sign_convention shape (load_values data c)))) key)"
    by (simp add: measurements_def mirror_final_values)
  have fl: "measurements (snd (calculate_lens c data shape)) key =
      map_option (reported (calculate_lens c data shape))
        (measurements (outcome_state (lens_solve (load_values data c))) key)"
    by (simp add: measurements_def lens_final_values)
  have few: "\<not> ((data ''focal_length'' \<noteq> None \<and> data ''u'' \<noteq> None) \<or>
          (data ''focal_length'' \<noteq> None \<and> data ''v'' \<noteq> None) \<or>
          (data ''u'' \<noteq> None \<and> data ''v'' \<noteq> None)) \<longrightarrow>
       (data ''focal_length'' = None \<longrightarrow>
          focal_length (snd (calculate_mirror c data shape)) = None \<and>
          focal_length (snd (calculate_lens c data shape)) = None) \<and>
       (data ''u'' = None \<and> data ''v'' = None \<longrightarrow>
          u (snd (calculate_mirror c data shape)) = None \<and>
          v (snd (calculate_mirror c data shape)) = None \<and>
          u (snd (calculate_lens c data shape)) = None \<and>
          v (snd (calculate_lens c data shape)) = None) \<and>
       (data ''h1'' = None \<or> data ''h2'' = None \<or>
        (data ''h1'' \<noteq> Some (Fin 0) \<and> data ''v'' = None) \<longrightarrow>
          fst (calculate_mirror c data shape) \<and> fst (calculate_lens c data shape))"
  proof (intro conjI impI)
    assume f: "\<not> ((data ''focal_length'' \<noteq> None \<and> data ''u'' \<noteq> None) \<or>
          (data ''focal_length'' \<noteq> None \<and> data ''v'' \<noteq> None) \<or>
          (data ''u'' \<noteq> None \<and> data ''v'' \<noteq> None))"
    note m = mirror_few_distances [where data = data and c = c and shape = shape, OF f]
    note l = lens_few_distances [where data = data and c = c and shape = shape, OF f]
    {
      assume "data ''focal_length'' = None"
      then show "focal_length (snd (calculate_mirror c data shape)) = None"
        and "focal_length (snd (calculate_lens c data shape)) = None"
        by (rule m(1) l(1))+
    next
      assume "data ''u'' = None \<and> data ''v'' = None"
      then have "data ''u'' = None" and "data ''v'' = None" by simp_all
      from m(2) [OF this] l(2) [OF this]
      show "u (snd (calculate_mirror c data shape)) = None"
        and "v (snd (calculate_mirror c data shape)) = None"
        and "u (snd (calculate_lens c data shape)) = None"
        and "v (snd (calculate_lens c data shape)) = None"
        by simp_all
    next
      assume "data ''h1'' = None \<or> data ''h2'' = None \<or>
        (data ''h1'' \<noteq> Some (Fin 0) \<and> data ''v'' = None)"
      then show "fst (calculate_mirror c data shape)" and "fst (calculate_lens c data shape)"
        by (rule m(3) l(3))+
    }
  qed
  show ?thesis
    by (rule conjI [OF supplied conjI [OF sm conjI [OF sl conjI [OF fm conjI [OF fl few]]]]])
qed

theorem distance_pair_resolves_all_witness:
  "fst (calculate_mirror new_calculator
         [''focal_length'' \<mapsto> Fin (- 50), ''u'' \<mapsto> Fin (- 20)] (Some ''concave'')) \<and>
   v (snd (calculate_mirror new_calculator
         [''focal_length'' \<mapsto> Fin (- 50), ''u'' \<mapsto> Fin (- 20)] (Some ''concave''))) \<noteq> None \<and>
   h1 (snd (calculate_mirror new_calculator
         [''focal_length'' \<mapsto> Fin (- 50), ''u'' \<mapsto> Fin (- 20)] (Some ''concave''))) \<noteq> None \<and>
   h2 (snd (calculate_mirror new_calculator
         [''focal_length'' \<mapsto> Fin (- 50), ''u'' \<mapsto> Fin (- 20)] (Some ''concave''))) \<noteq> None \<and>
   u (snd (calculate_mirror new_calculator
         [''focal_length'' \<mapsto> Fin (- 50), ''u'' \<mapsto> Fin (- 20)] (Some ''concave''))) =
     Some (Fin (- 20)) \<and>
   fst (calculate_mirror new_calculator
         [''h1'' \<mapsto> Fin 5, ''h2'' \<mapsto> Fin 10] (Some ''concave'')) \<and>
   focal_length (snd (calculate_mirror new_calculator
         [''h1'' \<mapsto> Fin 5, ''h2'' \<mapsto> Fin 10] (Some ''concave''))) = None \<and>
   u (snd (calculate_mirror new_calculator
         [''h1'' \<mapsto> Fin 5, ''h2'' \<mapsto> Fin 10] (Some ''concave''))) = None \<and>
   v (snd (calculate_mirror new_calculator
         [''h1'' \<mapsto> Fin 5, ''h2'' \<mapsto> Fin 10] (Some ''concave''))) = None"
proof -
  have s: "fst (calculate_mirror new_calculator
         [''focal_length'' \<mapsto> Fin (- 50), ''u'' \<mapsto> Fin (- 20)] (Some ''concave''))"
    by (simp add: float_defs mirror_defs finish_defs new_calculator_def Let_def)
  note t = distance_pair_resolves_all
      [where data = "[''focal_length'' \<mapsto> Fin (- 50), ''u'' \<mapsto> Fin (- 20)]"
        and c = new_calculator and shape = "Some ''concave''" and x = "Fin (- 20)",
        THEN conjunct1]
  note t' = distance_pair_resolves_all
      [where data = "[''h1'' \<mapsto> Fin 5, ''h2'' \<mapsto> Fin 10]"
        and c = new_calculator and shape = "Some ''concave''",
        THEN conjunct2, THEN conjunct2, THEN conjunct2, THEN conjunct2, THEN conjunct2]
  have 1: "fst (calculate_mirror new_calculator
         [''focal_length'' \<mapsto> Fin (- 50), ''u'' \<mapsto> Fin (- 20)] (Some ''concave'')) \<and>
   v (snd (calculate_mirror new_calculator
         [''focal_length'' \<mapsto> Fin (- 50), ''u'' \<mapsto> Fin (- 20)] (Some ''concave''))) \<noteq> None \<and>
   h1 (snd (calculate_mirror new_calculator
         [''focal_length'' \<mapsto> Fin (- 50), ''u'' \<mapsto> Fin (- 20)] (Some ''concave''))) \<noteq> None \<and>
   h2 (snd (calculate_mirror new_calculator
         [''focal_length'' \<mapsto> Fin (- 50), ''u'' \<mapsto> Fin (- 20)] (Some ''concave''))) \<noteq> None \<and>
   u (snd (calculate_mirror new_calculator
         [''focal_length'' \<mapsto> Fin (- 50), ''u'' \<mapsto> Fin (- 20)] (Some ''concave''))) =
     Some (Fin (- 20))"
    using s t by (simp add: reported_def round_value_def round_half_even_def)
  have 2: "fst (calculate_mirror new_calculator
         [''h1'' \<mapsto> Fin 5, ''h2'' \<mapsto> Fin 10] (Some ''concave'')) \<and>
   focal_length (snd (calculate_mirror new_calculator
         [''h1'' \<mapsto> Fin 5, ''h2'' \<mapsto> Fin 10] (Some ''concave''))) = None \<and>
   u (snd (calculate_mirror new_calculator
         [''h1'' \<mapsto> Fin 5, ''h2'' \<mapsto> Fin 10] (Some ''concave''))) = None \<and>
   v (snd (calculate_mirror new_calculator
         [''h1'' \<mapsto> Fin 5, ''h2'' \<mapsto> Fin 10] (Some ''concave''))) = None"
    using t' by simp
  from 1 2 show ?thesis by (simp only: simp_thms)
qed

text \<open>
  Claim C4 as stated fails for the pair \<open>u\<close>, \<open>h1\<close>: the input passes validation and
  the calculation succeeds, and \<open>f\<close>, \<open>v\<close> and \<open>h2\<close> are still unknown.
\<close>

theorem object_distance_and_height_resolve_nothing:
  "calculate (Some ''mirror'') (Some ''concave'') [''u'' \<mapsto> Fin (- 20), ''h1'' \<mapsto> Fin 5]
   = Success
       \<lparr>r_focal_length = JNull, r_u = JNumber (Fin (- 20)), r_v = JNull,
        r_h1 = JNumber (Fin 5), r_h2 = JNull\<rparr>
       None []"
  by (simp add: calculate_def float_defs validate_defs mirror_defs finish_defs Let_def)

section \<open>A supplied triple is not checked\<close>

lemma check_u_keeps_errors: "errors c \<noteq> [] \<Longrightarrow> errors (check_u data c) \<noteq> []"
  by (auto simp: check_u_def add_error_def split: option.splits)

lemma check_h1_keeps_errors: "errors c \<noteq> [] \<Longrightarrow> errors (check_h1 data c) \<noteq> []"
  by (auto simp: check_h1_def add_error_def split: option.splits)

lemma check_count_keeps_errors: "errors c \<noteq> [] \<Longrightarrow> errors (check_count data c) \<noteq> []"
  by (auto simp: check_count_def add_error_def)

lemma validated_u:
  assumes "fst (validate_inputs c0 data optic_type shape)" and "data ''u'' = Some x"
  shows "\<not> fge x (Fin 0)"
proof
  assume "fge x (Fin 0)"
  with assms(2) have "errors (check_u data c) \<noteq> []" for c
    by (simp add: check_u_def add_error_def)
  then have "errors (check_count data (check_h1 data (check_u data c))) \<noteq> []" for c
    by (intro check_count_keeps_errors check_h1_keeps_errors)
  with assms(1) show False
    by (simp add: validate_inputs_def Let_def split: if_splits)
qed

lemma validated_h1:
  assumes "fst (validate_inputs c0 data optic_type shape)" and "data ''h1'' = Some x"
  shows "\<not> fle x (Fin 0)"
proof
  assume "fle x (Fin 0)"
  with assms(2) have "errors (check_h1 data c) \<noteq> []" for c
    by (simp add: check_h1_def add_error_def)
  then have "errors (check_count data (check_h1 data c)) \<noteq> []" for c
    by (intro check_count_keeps_errors)
  with assms(1) show False
    by (simp add: validate_inputs_def Let_def split: if_splits)
qed

lemma not_fge_nonzero: "\<not> fge x (Fin 0) \<Longrightarrow> x \<noteq> Fin 0"
  by (auto simp: fge_def fle_def)

lemma not_fle_nonzero: "\<not> fle x (Fin 0) \<Longrightarrow> x \<noteq> Fin 0"
  by (auto simp: fle_def)

lemma mirror_solve_triple:
  assumes "focal_length c = Some f" and "u c = Some uu" and "v c = Some vv"
    and "uu \<noteq> Fin 0" and "\<forall>a. h1 c = Some a \<longrightarrow> a \<noteq> Fin 0"
    and "h1 c \<noteq> None \<or> h2 c = None \<or>
         (\<exists>b. h2 c = Some b \<and> fquot (fneg vv) uu \<noteq> Fin 0 \<and>
              fquot b (fquot (fneg vv) uu) \<noteq> Fin 0)"
  shows "\<exists>c'. mirror_solve c = Inr c'"
  using assms
  by (auto simp: mirror_solve_def mirror_distances_def mirror_magnification_def
      mirror_heights_def mirror_default_height_def try_eval_fdiv Let_def
      split: option.splits)

lemma lens_solve_triple:
  assumes "focal_length c = Some f" and "u c = Some uu" and "v c = Some vv"
    and "uu \<noteq> Fin 0" and "\<forall>a. h1 c = Some a \<longrightarrow> a \<noteq> Fin 0"
    and "h1 c \<noteq> None \<or> h2 c = None \<or>
         (\<exists>b. h2 c = Some b \<and> fquot vv uu \<noteq> Fin 0 \<and> fquot b (fquot vv uu) \<noteq> Fin 0)"
  shows "\<exists>c'. lens_solve c = Inr c'"
  using assms
  by (auto simp: lens_solve_def lens_distances_def lens_magnification_def
      lens_heights_def lens_default_height_def try_eval_fdiv Let_def
      split: option.splits)

text \<open>
  Claim C10, as the code has it. For a validated input that supplies \<open>f\<close>, \<open>u\<close> and
  \<open>v\<close>, whether or not they satisfy the mirror or lens formula, the calculation
  succeeds and reports the three as supplied, after the sign convention for a mirror's
  \<open>f\<close> and the rounding. The one exception is an image height supplied without an object
  height: the object height is then \<open>h2 / m\<close> with the magnification \<open>m\<close> of the
  supplied distances, and the calculation succeeds only if neither \<open>m\<close> nor that
  quotient is zero.
\<close>

theorem supplied_triple_not_checked:
  assumes "fst (validate_inputs c0 data optic_type shape)"
    and "data ''focal_length'' = Some f" and "data ''u'' = Some uu" and "data ''v'' = Some vv"
  shows "(data ''h1'' \<noteq> None \<or> data ''h2'' = None \<or>
          (\<exists>b. data ''h2'' = Some b \<and> fquot (fneg vv) uu \<noteq> Fin 0 \<and>
               fquot b (fquot (fneg vv) uu) \<noteq> Fin 0) \<longrightarrow>
            fst (calculate_mirror c data shape) \<and>
            focal_length (snd (calculate_mirror c data shape)) =
              Some (round_value (mirror_sign shape f)) \<and>
            u (snd (calculate_mirror c data shape)) = Some (round_value uu) \<and>
            v (snd (calculate_mirror c data shape)) = Some (round_value vv)) \<and>
         (data ''h1'' \<noteq> None \<or> data ''h2'' = None \<or>
          (\<exists>b. data ''h2'' = Some b \<and> fquot vv uu \<noteq> Fin 0 \<and>
               fquot b (fquot vv uu) \<noteq> Fin 0) \<longrightarrow>
            fst (calculate_lens c data shape) \<and>
            focal_length (snd (calculate_lens c data shape)) = Some (round_value f) \<and>
            u (snd (calculate_lens c data shape)) = Some (round_value uu) \<and>
            v (snd (calculate_lens c data shape)) = Some (round_value vv))"
proof (intro conjI impI)
  have u0: "uu \<noteq> Fin 0"
    using validated_u [OF assms(1), where x = uu] assms(3) by (auto dest: not_fge_nonzero)
  have h0: "\<forall>a. data ''h1'' = Some a \<longrightarrow> a \<noteq> Fin 0"
    using validated_h1 [OF assms(1)] by (auto dest: not_fle_nonzero)
  note ms = mirror_keeps_supplied [where data = data and c = c and shape = shape]
  note ls = lens_keeps_supplied [where data = data and c = c and shape = shape]
  {
    assume hs: "data ''h1'' \<noteq> None \<or> data ''h2'' = None \<or>
          (\<exists>b. data ''h2'' = Some b \<and> fquot (fneg vv) uu \<noteq> Fin 0 \<and>
               fquot b (fquot (fneg vv) uu) \<noteq> Fin 0)"
    let ?c1 = "mirror_sign_convention shape (load_values data c)"
    have "\<exists>c'. mirror_solve ?c1 = Inr c'"
    proof (rule mirror_solve_triple)
      show "focal_length ?c1 = Some (mirror_sign shape f)" using assms(2) by simp
      show "u ?c1 = Some uu" using assms(3) by simp
      show "v ?c1 = Some vv" using assms(4) by simp
      show "uu \<noteq> Fin 0" by (rule u0)
      show "\<forall>a. h1 ?c1 = Some a \<longrightarrow> a \<noteq> Fin 0" using h0 by simp
      show "h1 ?c1 \<noteq> None \<or> h2 ?c1 = None \<or>
         (\<exists>b. h2 ?c1 = Some b \<and> fquot (fneg vv) uu \<noteq> Fin 0 \<and>
              fquot b (fquot (fneg vv) uu) \<noteq> Fin 0)"
        using hs by simp
    qed
    then have ok: "fst (calculate_mirror c data shape)"
      by (auto simp: calculate_mirror_cases)
    then show "fst (calculate_mirror c data shape)" .
    from ok ms(1) [OF assms(2)]
    show "focal_length (snd (calculate_mirror c data shape)) =
              Some (round_value (mirror_sign shape f))"
      by (simp add: reported_def)
    from ok ms(2) [OF assms(3)]
    show "u (snd (calculate_mirror c data shape)) = Some (round_value uu)"
      by (simp add: reported_def)
    from ok ms(3) [OF assms(4)]
    show "v (snd (calculate_mirror c data shape)) = Some (round_value vv)"
      by (simp add: reported_def)
  }
  {
    assume hs: "data ''h1'' \<noteq> None \<or> data ''h2'' = None \<or>
          (\<exists>b. data ''h2'' = Some b \<and> fquot vv uu \<noteq> Fin 0 \<and>
               fquot b (fquot vv uu) \<noteq> Fin 0)"
    let ?c1 = "load_values data c"
    have "\<exists>c'. lens_solve ?c1 = Inr c'"
    proof (rule lens_solve_triple)
      show "focal_length ?c1 = Some f" using assms(2) by simp
      show "u ?c1 = Some uu" using assms(3) by simp
      show "v ?c1 = Some vv" using assms(4) by simp
      show "uu \<noteq> Fin 0" by (rule u0)
      show "\<forall>a. h1 ?c1 = Some a \<longrightarrow> a \<noteq> Fin 0" using h0 by simp
      show "h1 ?c1 \<noteq> None \<or> h2 ?c1 = None \<or>
         (\<exists>b. h2 ?c1 = Some b \<and> fquot vv uu \<noteq> Fin 0 \<and> fquot b (fquot vv uu) \<noteq> Fin 0)"
        using hs by simp
    qed
    then have ok: "fst (calculate_lens c data shape)"
      by (auto simp: calculate_lens_cases)
    then show "fst (calculate_lens c data shape)" .
    from ok ls(1) [OF assms(2)]
    show "focal_length (snd (calculate_lens c data shape)) = Some (round_value f)"
      by (simp add: reported_def)
    from ok ls(2) [OF assms(3)]
    show "u (snd (calculate_lens c data shape)) = Some (round_value uu)"
      by (simp add: reported_def)
    from ok ls(3) [OF assms(4)]
    show "v (snd (calculate_lens c data shape)) = Some (round_value vv)"
      by (simp add: reported_def)
  }
qed

theorem supplied_triple_not_checked_witness:
  "fst (validate_inputs new_calculator
         [''focal_length'' \<mapsto> Fin (- 50), ''u'' \<mapsto> Fin (- 20), ''v'' \<mapsto> Fin 10]
         (Some ''mirror'') (Some ''concave'')) \<and>
   fst (calculate_mirror new_calculator
         [''focal_length'' \<mapsto> Fin (- 50), ''u'' \<mapsto> Fin (- 20), ''v'' \<mapsto> Fin 10]
         (Some ''concave'')) \<and>
   focal_length (snd (calculate_mirror new_calculator
         [''focal_length'' \<mapsto> Fin (- 50), ''u'' \<mapsto> Fin (- 20), ''v'' \<mapsto> Fin 10]
         (Some ''concave''))) = Some (Fin (- 50)) \<and>
   u (snd (calculate_mirror new_calculator
         [''focal_length'' \<mapsto> Fin (- 50), ''u'' \<mapsto> Fin (- 20), ''v'' \<mapsto> Fin 10]
         (Some ''concave''))) = Some (Fin (- 20)) \<and>
   v (snd (calculate_mirror new_calculator
         [''focal_length'' \<mapsto> Fin (- 50), ''u'' \<mapsto> Fin (- 20), ''v'' \<mapsto> Fin 10]
         (Some ''concave''))) = Some (Fin 10) \<and>
   1 / (- 50) \<noteq> 1 / (- 20) + 1 / (10 :: real)"
proof -
  have valid: "fst (validate_inputs new_calculator
         [''focal_length'' \<mapsto> Fin (- 50), ''u'' \<mapsto> Fin (- 20), ''v'' \<mapsto> Fin 10]
         (Some ''mirror'') (Some ''concave''))"
    by (simp add: validate_defs float_defs)
  show ?thesis
    using valid supplied_triple_not_checked [OF valid, of "Fin (- 50)" "Fin (- 20)" "Fin 10"
        new_calculator]
    by (simp add: mirror_sign_def fgt_def round_value_def round_half_even_def)
qed

text \<open>
  Claim C10 as stated fails where \<open>v = 0\<close> and only \<open>h2\<close> is supplied of the heights:
  the magnification is zero and the division \<open>h2 / m\<close> raises, so the route answers
  with a failure.
\<close>

theorem supplied_triple_zero_magnification_fails:
  "calculate (Some ''mirror'') (Some ''concave'')
     [''focal_length'' \<mapsto> Fin (- 50), ''u'' \<mapsto> Fin (- 20), ''v'' \<mapsto> Fin 0, ''h2'' \<mapsto> Fin 5]
   = Failure [''Calculation error: float division by zero'']"
  by (simp add: calculate_def float_defs validate_defs mirror_defs finish_defs Let_def)

section \<open>Running a calculation on its own result\<close>

lemma round_half_even_of_int [simp]: "round_half_even (of_int k) = k"
  by (simp add: round_half_even_def)

lemma round_value_idem [simp]: "round_value (round_value x) = round_value x"
  by (cases x) (simp_all add: round_value_def)

lemma measurements_simps [simp]:
  "measurements r ''focal_length'' = focal_length r"
  "measurements r ''u'' = u r"
  "measurements r ''v'' = v r"
  "measurements r ''h1'' = h1 r"
  "measurements r ''h2'' = h2 r"
  by (simp_all add: measurements_def)

lemma mirror_solve_full:
  assumes "focal_length c = Some f" and "u c = Some uu" and "v c = Some vv"
    and "h1 c = Some a" and "h2 c = Some b" and "uu \<noteq> Fin 0" and "a \<noteq> Fin 0"
  shows "mirror_solve c = Inr c"
  using assms
  by (simp add: mirror_solve_def mirror_distances_def mirror_magnification_def
      mirror_heights_def mirror_default_height_def try_eval_fdiv)

lemma lens_solve_full:
  assumes "focal_length c = Some f" and "u c = Some uu" and "v c = Some vv"
    and "h1 c = Some a" and "h2 c = Some b" and "uu \<noteq> Fin 0" and "a \<noteq> Fin 0"
  shows "lens_solve c = Inr c"
  using assms
  by (simp add: lens_solve_def lens_distances_def lens_magnification_def
      lens_heights_def lens_default_height_def try_eval_fdiv)

lemma mirror_success_rounded:
  assumes "fst (calculate_mirror c data shape)"
  shows "map_option round_value (focal_length (snd (calculate_mirror c data shape))) =
           focal_length (snd (calculate_mirror c data shape)) \<and>
         map_option round_value (u (snd (calculate_mirror c data shape))) =
           u (snd (calculate_mirror c data shape)) \<and>
         map_option round_value (v (snd (calculate_mirror c data shape))) =
           v (snd (calculate_mirror c data shape)) \<and>
         map_option round_value (h1 (snd (calculate_mirror c data shape))) =
           h1 (snd (calculate_mirror c data shape)) \<and>
         map_option round_value (h2 (snd (calculate_mirror c data shape))) =
           h2 (snd (calculate_mirror c data shape))"
proof -
  from assms mirror_reports_inputs [of c data shape] obtain c3 where
    "snd (calculate_mirror c data shape) =
       outcome_state (analyze_image_characteristics ''mirror'' (round_values c3))"
    by blast
  then show ?thesis by (simp add: option.map_comp comp_def)
qed

lemma lens_success_rounded:
  assumes "fst (calculate_lens c data shape)"
  shows "map_option round_value (focal_length (snd (calculate_lens c data shape))) =
           focal_length (snd (calculate_lens c data shape)) \<and>
         map_option round_value (u (snd (calculate_lens c data shape))) =
           u (snd (calculate_lens c data shape)) \<and>
         map_option round_value (v (snd (calculate_lens c data shape))) =
           v (snd (calculate_lens c data shape)) \<and>
         map_option round_value (h1 (snd (calculate_lens c data shape))) =
           h1 (snd (calculate_lens c data shape)) \<and>
         map_option round_value (h2 (snd (calculate_lens c data shape))) =
           h2 (snd (calculate_lens c data shape))"
proof -
  from assms lens_reports_inputs [of c data shape] obtain c3 where
    "snd (calculate_lens c data shape) =
       outcome_state (analyze_image_characteristics ''lens'' (round_values c3))"
    by blast
  then show ?thesis by (simp add: option.map_comp comp_def)
qed

lemma mirror_rerun:
  assumes "focal_length r = Some f" and "u r = Some uu" and "v r = Some vv"
    and "h1 r = Some a" and "h2 r = Some b" and "uu \<noteq> Fin 0" and "a \<noteq> Fin 0"
    and "mirror_sign shape f = f"
    and "round_value f = f" and "round_value uu = uu" and "round_value vv = vv"
    and "round_value a = a" and "round_value b = b"
  shows "fst (calculate_mirror c' (measurements r) shape) \<and>
         focal_length (snd (calculate_mirror c' (measurements r) shape)) = Some f \<and>
         u (snd (calculate_mirror c' (measurements r) shape)) = Some uu \<and>
         v (snd (calculate_mirror c' (measurements r) shape)) = Some vv \<and>
         h1 (snd (calculate_mirror c' (measurements r) shape)) = Some a \<and>
         h2 (snd (calculate_mirror c' (measurements r) shape)) = Some b"
proof -
  let ?c1 = "mirror_sign_convention shape (load_values (measurements r) c')"
  have "mirror_solve ?c1 = Inr ?c1"
    by (rule mirror_solve_full [where f = f and uu = uu and vv = vv and a = a and b = b])
       (simp_all add: assms)
  then show ?thesis
    by (simp add: calculate_mirror_cases assms)
qed

lemma lens_rerun:
  assumes "focal_length r = Some f" and "u r = Some uu" and "v r = Some vv"
    and "h1 r = Some a" and "h2 r = Some b" and "uu \<noteq> Fin 0" and "a \<noteq> Fin 0"
    and "round_value f = f" and "round_value uu = uu" and "round_value vv = vv"
    and "round_value a = a" and "round_value b = b"
  shows "fst (calculate_lens c' (measurements r) shape) \<and>
         focal_length (snd (calculate_lens c' (measurements r) shape)) = Some f \<and>
         u (snd (calculate_lens c' (measurements r) shape)) = Some uu \<and>
         v (snd (calculate_lens c' (measurements r) shape)) = Some vv \<and>
         h1 (snd (calculate_lens c' (measurements r) shape)) = Some a \<and>
         h2 (snd (calculate_lens c' (measurements r) shape)) = Some b"
proof -
  let ?c1 = "load_values (measurements r) c'"
  have "lens_solve ?c1 = Inr ?c1"
    by (rule lens_solve_full [where f = f and uu = uu and vv = vv and a = a and b = b])
       (simp_all add: assms)
  then show ?thesis
    by (simp add: calculate_lens_cases assms)
qed

text \<open>
  Claim C9, as the code has it. Take a calculation that succeeded with all five values
  present, and run the same calculation on these five values. If the resolved \<open>u\<close> and
  \<open>h1\<close> are not zero and, for a mirror, the resolved \<open>f\<close> already has the sign that
  the shape's convention gives it, the second run succeeds and reports the same five
  values.
\<close>

theorem rerun_keeps_values:
  "(fst (calculate_mirror c data shape) \<and>
    focal_length (snd (calculate_mirror c data shape)) = Some f \<and>
    u (snd (calculate_mirror c data shape)) = Some uu \<and>
    v (snd (calculate_mirror c data shape)) = Some vv \<and>
    h1 (snd (calculate_mirror c data shape)) = Some a \<and>
    h2 (snd (calculate_mirror c data shape)) = Some b \<and>
    uu \<noteq> Fin 0 \<and> a \<noteq> Fin 0 \<and> mirror_sign shape f = f \<longrightarrow>
      fst (calculate_mirror c' (measurements (snd (calculate_mirror c data shape))) shape) \<and>
      focal_length (snd (calculate_mirror c'
        (measurements (snd (calculate_mirror c data shape))) shape)) = Some f \<and>
      u (snd (calculate_mirror c'
        (measurements (snd (calculate_mirror c data shape))) shape)) = Some uu \<and>
      v (snd (calculate_mirror c'
        (measurements (snd (calculate_mirror c data shape))) shape)) = Some vv \<and>
      h1 (snd (calculate_mirror c'
        (measurements (snd (calculate_mirror c data shape))) shape)) = Some a \<and>
      h2 (snd (calculate_mirror c'
        (measurements (snd (calculate_mirror c data shape))) shape)) = Some b) \<and>
   (fst (calculate_lens c data shape) \<and>
    focal_length (snd (calculate_lens c data shape)) = Some f \<and>
    u (snd (calculate_lens c data shape)) = Some uu \<and>
    v (snd (calculate_lens c data shape)) = Some vv \<and>
    h1 (snd (calculate_lens c data shape)) = Some a \<and>
    h2 (snd (calculate_lens c data shape)) = Some b \<and>
    uu \<noteq> Fin 0 \<and> a \<noteq> Fin 0 \<longrightarrow>
      fst (calculate_lens c' (measurements (snd (calculate_lens c data shape))) shape) \<and>
      focal_length (snd (calculate_lens c'
        (measurements (snd (calculate_lens c data shape))) shape)) = Some f \<and>
      u (snd (calculate_lens c'
        (measurements (snd (calculate_lens c data shape))) shape)) = Some uu \<and>
      v (snd (calculate_lens c'
        (measurements (snd (calculate_lens c data shape))) shape)) = Some vv \<and>
      h1 (snd (calculate_lens c'
        (measurements (snd (calculate_lens c data shape))) shape)) = Some a \<and>
      h2 (snd (calculate_lens c'
        (measurements (snd (calculate_lens c data shape))) shape)) = Some b)"
proof -
  have mirror: "fst (calculate_mirror c' (measurements (snd (calculate_mirror c data shape))) shape) \<and>
      focal_length (snd (calculate_mirror c'
        (measurements (snd (calculate_mirror c data shape))) shape)) = Some f \<and>
      u (snd (calculate_mirror c'
        (measurements (snd (calculate_mirror c data shape))) shape)) = Some uu \<and>
      v (snd (calculate_mirror c'
        (measurements (snd (calculate_mirror c data shape))) shape)) = Some vv \<and>
      h1 (snd (calculate_mirror c'
        (measurements (snd (calculate_mirror c data shape))) shape)) = Some a \<and>
      h2 (snd (calculate_mirror c'
        (measurements (snd (calculate_mirror c data shape))) shape)) = Some b"
    if ok: "fst (calculate_mirror c data shape)"
      and vals: "focal_length (snd (calculate_mirror c data shape)) = Some f"
        "u (snd (calculate_mirror c data shape)) = Some uu"
        "v (snd (calculate_mirror c data shape)) = Some vv"
        "h1 (snd (calculate_mirror c data shape)) = Some a"
        "h2 (snd (calculate_mirror c data shape)) = Some b"
      and nz: "uu \<noteq> Fin 0" "a \<noteq> Fin 0" and sg: "mirror_sign shape f = f"
  proof -
    from mirror_success_rounded [OF ok] vals
    have "round_value f = f" "round_value uu = uu" "round_value vv = vv"
      "round_value a = a" "round_value b = b"
      by simp_all
    with vals nz sg show ?thesis by (intro mirror_rerun)
  qed
  have lens: "fst (calculate_lens c' (measurements (snd (calculate_lens c data shape))) shape) \<and>
      focal_length (snd (calculate_lens c'
        (measurements (snd (calculate_lens c data shape))) shape)) = Some f \<and>
      u (snd (calculate_lens c'
        (measurements (snd (calculate_lens c data shape))) shape)) = Some uu \<and>
      v (snd (calculate_lens c'
        (measurements (snd (calculate_lens c data shape))) shape)) = Some vv \<and>
      h1 (snd (calculate_lens c'
        (measurements (snd (calculate_lens c data shape))) shape)) = Some a \<and>
      h2 (snd (calculate_lens c'
        (measurements (snd (calculate_lens c data shape))) shape)) = Some b"
    if ok: "fst (calculate_lens c data shape)"
      and vals: "focal_length (snd (calculate_lens c data shape)) = Some f"
        "u (snd (calculate_lens c data shape)) = Some uu"
        "v (snd (calculate_lens c data shape)) = Some vv"
        "h1 (snd (calculate_lens c data shape)) = Some a"
        "h2 (snd (calculate_lens c data shape)) = Some b"
      and nz: "uu \<noteq> Fin 0" "a \<noteq> Fin 0"
  proof -
    from lens_success_rounded [OF ok] vals
    have "round_value f = f" "round_value uu = uu" "round_value vv = vv"
      "round_value a = a" "round_value b = b"
      by simp_all
    with vals nz show ?thesis by (intro lens_rerun)
  qed
  show ?thesis
  proof (intro conjI)
    show "fst (calculate_mirror c data shape) \<and>
      focal_length (snd (calculate_mirror c data shape)) = Some f \<and>
      u (snd (calculate_mirror c data shape)) = Some uu \<and>
      v (snd (calculate_mirror c data shape)) = Some vv \<and>
      h1 (snd (calculate_mirror c data shape)) = Some a \<and>
      h2 (snd (calculate_mirror c data shape)) = Some b \<and>
      uu \<noteq> Fin 0 \<and> a \<noteq> Fin 0 \<and> mirror_sign shape f = f \<longrightarrow>
      fst (calculate_mirror c' (measurements (snd (calculate_mirror c data shape))) shape) \<and>
      focal_length (snd (calculate_mirror c'
        (measurements (snd (calculate_mirror c data shape))) shape)) = Some f \<and>
      u (snd (calculate_mirror c'
        (measurements (snd (calculate_mirror c data shape))) shape)) = Some uu \<and>
      v (snd (calculate_mirror c'
        (measurements (snd (calculate_mirror c data shape))) shape)) = Some vv \<and>
      h1 (snd (calculate_mirror c'
        (measurements (snd (calculate_mirror c data shape))) shape)) = Some a \<and>
      h2 (snd (calculate_mirror c'
        (measurements (snd (calculate_mirror c data shape))) shape)) = Some b"
      using mirror by blast
    show "fst (calculate_lens c data shape) \<and>
      focal_length (snd (calculate_lens c data shape)) = Some f \<and>
      u (snd (calculate_lens c data shape)) = Some uu \<and>
      v (snd (calculate_lens c data shape)) = Some vv \<and>
      h1 (snd (calculate_lens c data shape)) = Some a \<and>
      h2 (snd (calculate_lens c data shape)) = Some b \<and>
      uu \<noteq> Fin 0 \<and> a \<noteq> Fin 0 \<longrightarrow>
      fst (calculate_lens c' (measurements (snd (calculate_lens c data shape))) shape) \<and>
      focal_length (snd (calculate_lens c'
        (measurements (snd (calculate_lens c data shape))) shape)) = Some f \<and>
      u (snd (calculate_lens c'
        (measurements (snd (calculate_lens c data shape))) shape)) = Some uu \<and>
      v (snd (calculate_lens c'
        (measurements (snd (calculate_lens c data shape))) shape)) = Some vv \<and>
      h1 (snd (calculate_lens c'
        (measurements (snd (calculate_lens c data shape))) shape)) = Some a \<and>
      h2 (snd (calculate_lens c'
        (measurements (snd (calculate_lens c data shape))) shape)) = Some b"
      using lens by blast
  qed
qed

theorem rerun_keeps_values_witness:
  "calculate_mirror new_calculator
     [''focal_length'' \<mapsto> Fin (- 50), ''u'' \<mapsto> Fin (- 20)] (Some ''concave'')
   = (True,
      \<lparr>focal_length = Some (Fin (- 50)), u = Some (Fin (- 20)),
       v = Some (Fin (33333 / 1000)), h1 = Some (Fin 15), h2 = Some (Fin 25),
       errors = [], warnings = [],
       image_characteristics = Some
         \<lparr>nature = ''Virtual'', orientation = ''Erect'', size_of = ''Magnified'',
          magnification = MagNumber (Fin (1667 / 1000))\<rparr>\<rparr>) \<and>
   fst (calculate_mirror new_calculator
     (measurements (snd (calculate_mirror new_calculator
        [''focal_length'' \<mapsto> Fin (- 50), ''u'' \<mapsto> Fin (- 20)] (Some ''concave''))))
     (Some ''concave'')) \<and>
   v (snd (calculate_mirror new_calculator
     (measurements (snd (calculate_mirror new_calculator
        [''focal_length'' \<mapsto> Fin (- 50), ''u'' \<mapsto> Fin (- 20)] (Some ''concave''))))
     (Some ''concave''))) = Some (Fin (33333 / 1000)) \<and>
   h2 (snd (calculate_mirror new_calculator
     (measurements (snd (calculate_mirror new_calculator
        [''focal_length'' \<mapsto> Fin (- 50), ''u'' \<mapsto> Fin (- 20)] (Some ''concave''))))
     (Some ''concave''))) = Some (Fin 25)"
proof -
  have first: "calculate_mirror new_calculator
     [''focal_length'' \<mapsto> Fin (- 50), ''u'' \<mapsto> Fin (- 20)] (Some ''concave'')
   = (True,
      \<lparr>focal_length = Some (Fin (- 50)), u = Some (Fin (- 20)),
       v = Some (Fin (33333 / 1000)), h1 = Some (Fin 15), h2 = Some (Fin 25),
       errors = [], warnings = [],
       image_characteristics = Some
         \<lparr>nature = ''Virtual'', orientation = ''Erect'', size_of = ''Magnified'',
          magnification = MagNumber (Fin (1667 / 1000))\<rparr>\<rparr>)"
    by (simp add: float_defs mirror_defs finish_defs new_calculator_def Let_def)
  show ?thesis
    using first rerun_keeps_values
      [of new_calculator "[''focal_length'' \<mapsto> Fin (- 50), ''u'' \<mapsto> Fin (- 20)]"
        "Some ''concave''" "Fin (- 50)" "Fin (- 20)" "Fin (33333 / 1000)" "Fin 15" "Fin 25"
        new_calculator]
    by (simp add: mirror_sign_def fgt_def)
qed

text \<open>
  Claim C9 as stated fails. A concave mirror with \<open>u = -30\<close> and \<open>v = 20\<close> resolves to
  \<open>f = 60\<close>; run again on the five resolved values, the sign convention turns \<open>f\<close> into
  \<open>-60\<close>. And a concave mirror with \<open>f = -50\<close> and \<open>u = -0.0001\<close> resolves to
  \<open>u = 0\<close> and \<open>v = 0\<close> after rounding, on which the second run divides by zero.
\<close>

theorem rerun_changes_focal_length:
  "calculate (Some ''mirror'') (Some ''concave'') [''u'' \<mapsto> Fin (- 30), ''v'' \<mapsto> Fin 20]
   = Success
       \<lparr>r_focal_length = JNumber (Fin 60), r_u = JNumber (Fin (- 30)), r_v = JNumber (Fin 20),
        r_h1 = JNumber (Fin 18), r_h2 = JNumber (Fin 12)\<rparr>
       (Some \<lparr>nature = ''Virtual'', orientation = ''Erect'', size_of = ''Diminished'',
              magnification = MagNumber (Fin (667 / 1000))\<rparr>)
       [] \<and>
   calculate (Some ''mirror'') (Some ''concave'')
     [''focal_length'' \<mapsto> Fin 60, ''u'' \<mapsto> Fin (- 30), ''v'' \<mapsto> Fin 20,
      ''h1'' \<mapsto> Fin 18, ''h2'' \<mapsto> Fin 12]
   = Success
       \<lparr>r_focal_length = JNumber (Fin (- 60)), r_u = JNumber (Fin (- 30)),
        r_v = JNumber (Fin 20), r_h1 = JNumber (Fin 18), r_h2 = JNumber (Fin 12)\<rparr>
       (Some \<lparr>nature = ''Virtual'', orientation = ''Erect'', size_of = ''Diminished'',
              magnification = MagNumber (Fin (667 / 1000))\<rparr>)
       [] \<and>
   calculate (Some ''mirror'') (Some ''concave'')
     [''focal_length'' \<mapsto> Fin (- 50), ''u'' \<mapsto> Fin (- (1 / 10000))]
   = Success
       \<lparr>r_focal_length = JNumber (Fin (- 50)), r_u = JNumber (Fin 0), r_v = JNumber (Fin 0),
        r_h1 = JNumber (Fin 15), r_h2 = JNumber (Fin 15)\<rparr>
       (Some \<lparr>nature = ''Virtual'', orientation = ''Erect'', size_of = ''Same size'',
              magnification = MagNumber (Fin 1)\<rparr>)
       [''Using absolute value of focal length for concave mirror''] \<and>
   calculate_mirror new_calculator
     [''focal_length'' \<mapsto> Fin (- 50), ''u'' \<mapsto> Fin 0, ''v'' \<mapsto> Fin 0,
      ''h1'' \<mapsto> Fin 15, ''h2'' \<mapsto> Fin 15] (Some ''concave'')
   = (False,
      new_calculator\<lparr>focal_length := Some (Fin (- 50)), u := Some (Fin 0), v := Some (Fin 0),
        h1 := Some (Fin 15), h2 := Some (Fin 15),
        errors := [''Calculation error: float division by zero'']\<rparr>)"
  by (simp add: calculate_def float_defs validate_defs mirror_defs finish_defs Let_def)

section \<open>The default object height\<close>

lemma mirror_solve_heights:
  assumes "mirror_solve c = Inr c'"
  shows "(h1 c = None \<and> h2 c = None \<longrightarrow>
            (case focal_length c' of
               None \<Rightarrow> h1 c' = None \<and> h2 c' = None
             | Some f \<Rightarrow>
                 h1 c' = Some (fmul (fabs f) (Fin (3 / 10))) \<and>
                 (case (u c', v c') of
                    (Some uu, Some vv) \<Rightarrow>
                      h2 c' = Some (fmul (fneg (fquot vv uu)) (fmul (fabs f) (Fin (3 / 10))))
                  | _ \<Rightarrow> h2 c' = None))) \<and>
         (\<forall>a. h1 c = Some a \<longrightarrow> h1 c' = Some a) \<and>
         (\<forall>b. h1 c = None \<and> h2 c = Some b \<longrightarrow>
            h2 c' = Some b \<and>
            (case (u c', v c') of
               (Some uu, Some vv) \<Rightarrow> h1 c' = Some (fquot b (fquot (fneg vv) uu))
             | _ \<Rightarrow> h1 c' = map_option (\<lambda>f. fmul (fabs f) (Fin (3 / 10))) (focal_length c')))"
proof -
  from assms obtain c1 c2 c3 where
    d: "mirror_distances c = Inr c1" and m: "mirror_magnification c1 = Inr c2" and
    h: "mirror_heights c2 = Inr c3" and e: "mirror_default_height c3 = Inr c'"
    unfolding mirror_solve_def and_then_Inr by blast
  from d have d': "h1 c1 = h1 c \<and> h2 c1 = h2 c"
    by (auto simp: mirror_distances_def try_eval_fdiv add_error_def
        split: option.splits if_splits)
  from m have m': "focal_length c2 = focal_length c1 \<and> u c2 = u c1 \<and> v c2 = v c1 \<and>
      (h1 c1 = None \<and> h2 c1 = None \<longrightarrow> h1 c2 = None \<and> h2 c2 = None) \<and>
      (\<forall>a. h1 c1 = Some a \<longrightarrow> h1 c2 = Some a) \<and>
      (\<forall>b. h1 c1 = None \<and> h2 c1 = Some b \<longrightarrow> h2 c2 = Some b \<and>
         (case (u c1, v c1) of
            (Some uu, Some vv) \<Rightarrow> h1 c2 = Some (fquot b (fquot (fneg vv) uu))
          | _ \<Rightarrow> h1 c2 = None))"
    by (auto simp: mirror_magnification_def try_eval_fdiv split: option.splits if_splits)
  from h have h': "focal_length c3 = focal_length c2 \<and> h1 c3 = h1 c2 \<and> h2 c3 = h2 c2 \<and>
      (h1 c2 = None \<longrightarrow> u c3 = u c2 \<and> v c3 = v c2) \<and>
      (u c2 \<noteq> None \<and> v c2 \<noteq> None \<longrightarrow> u c3 = u c2 \<and> v c3 = v c2)"
    by (auto simp: mirror_heights_def try_eval_fdiv split: option.splits if_splits)
  from e have e': "focal_length c' = focal_length c3 \<and> u c' = u c3 \<and> v c' = v c3 \<and>
      (\<forall>a. h1 c3 = Some a \<longrightarrow> h1 c' = Some a \<and> h2 c' = h2 c3) \<and>
      (h1 c3 = None \<longrightarrow>
         h1 c' = map_option (\<lambda>f. fmul (fabs f) (Fin (3 / 10))) (focal_length c3) \<and>
         (case (focal_length c3, u c3, v c3) of
            (Some f, Some uu, Some vv) \<Rightarrow>
              h2 c' = Some (fmul (fneg (fquot vv uu)) (fmul (fabs f) (Fin (3 / 10))))
          | _ \<Rightarrow> h2 c' = h2 c3))"
    by (auto simp: mirror_default_height_def try_eval_fdiv Let_def split: option.splits if_splits)
  show ?thesis
  proof (cases "h1 c")
    case (Some a)
    with d' m' h' e' show ?thesis by simp
  next
    case n1: None
    show ?thesis
    proof (cases "h2 c")
      case None
      with n1 d' m' h' have "h1 c3 = None" "h2 c3 = None" "u c' = u c3" "v c' = v c3"
        "focal_length c' = focal_length c3"
        using e' by simp_all
      with n1 None e' show ?thesis
        by (cases "focal_length c3"; cases "u c3"; cases "v c3") simp_all
    next
      case (Some b)
      show ?thesis
      proof (cases "u c1 \<noteq> None \<and> v c1 \<noteq> None")
        case True
        then obtain uu vv where uv: "u c1 = Some uu" "v c1 = Some vv" by auto
        with n1 Some d' m' have "h1 c2 = Some (fquot b (fquot (fneg vv) uu))" "h2 c2 = Some b"
          "u c2 = Some uu" "v c2 = Some vv"
          by simp_all
        with h' e' have "h1 c' = Some (fquot b (fquot (fneg vv) uu))" "h2 c' = Some b"
          "u c' = Some uu" "v c' = Some vv"
          by simp_all
        with n1 Some show ?thesis by simp
      next
        case False
        with n1 Some d' m' have k2: "h1 c2 = None" "h2 c2 = Some b" "u c2 = u c1" "v c2 = v c1"
          by (auto split: option.splits)
        with h' have k3: "h1 c3 = None" "h2 c3 = Some b" "u c3 = u c1" "v c3 = v c1"
          by simp_all
        with e' False have "h2 c' = Some b" "u c' = u c1" "v c' = v c1"
          "h1 c' = map_option (\<lambda>f. fmul (fabs f) (Fin (3 / 10))) (focal_length c')"
          by (auto split: option.splits)
        with n1 Some False show ?thesis by (auto split: option.splits)
      qed
    qed
  qed
qed

lemma lens_solve_heights:
  assumes "lens_solve c = Inr c'"
  shows "(h1 c = None \<and> h2 c = None \<longrightarrow>
            (case focal_length c' of
               None \<Rightarrow> h1 c' = None \<and> h2 c' = None
             | Some f \<Rightarrow>
                 h1 c' = Some (fmul (fabs f) (Fin (3 / 10))) \<and>
                 (case (u c', v c') of
                    (Some uu, Some vv) \<Rightarrow>
                      h2 c' = Some (fmul (fquot vv uu) (fmul (fabs f) (Fin (3 / 10))))
                  | _ \<Rightarrow> h2 c' = None))) \<and>
         (\<forall>a. h1 c = Some a \<longrightarrow> h1 c' = Some a) \<and>
         (\<forall>b. h1 c = None \<and> h2 c = Some b \<longrightarrow>
            h2 c' = Some b \<and>
            (case (u c', v c') of
               (Some uu, Some vv) \<Rightarrow> h1 c' = Some (fquot b (fquot vv uu))
             | _ \<Rightarrow> h1 c' = map_option (\<lambda>f. fmul (fabs f) (Fin (3 / 10))) (focal_length c')))"
proof -
  from assms obtain c1 c2 c3 where
    d: "lens_distances c = Inr c1" and m: "lens_magnification c1 = Inr c2" and
    h: "lens_heights c2 = Inr c3" and e: "lens_default_height c3 = Inr c'"
    unfolding lens_solve_def and_then_Inr by blast
  from d have d': "h1 c1 = h1 c \<and> h2 c1 = h2 c"
    by (auto simp: lens_distances_def try_eval_fdiv add_error_def
        split: option.splits if_splits)
  from m have m': "focal_length c2 = focal_length c1 \<and> u c2 = u c1 \<and> v c2 = v c1 \<and>
      (h1 c1 = None \<and> h2 c1 = None \<longrightarrow> h1 c2 = None \<and> h2 c2 = None) \<and>
      (\<forall>a. h1 c1 = Some a \<longrightarrow> h1 c2 = Some a) \<and>
      (\<forall>b. h1 c1 = None \<and> h2 c1 = Some b \<longrightarrow> h2 c2 = Some b \<and>
         (case (u c1, v c1) of
            (Some uu, Some vv) \<Rightarrow> h1 c2 = Some (fquot b (fquot vv uu))
          | _ \<Rightarrow> h1 c2 = None))"
    by (auto simp: lens_magnification_def try_eval_fdiv split: option.splits if_splits)
  from h have h': "focal_length c3 = focal_length c2 \<and> h1 c3 = h1 c2 \<and> h2 c3 = h2 c2 \<and>
      (h1 c2 = None \<longrightarrow> u c3 = u c2 \<and> v c3 = v c2) \<and>
      (u c2 \<noteq> None \<and> v c2 \<noteq> None \<longrightarrow> u c3 = u c2 \<and> v c3 = v c2)"
    by (auto simp: lens_heights_def try_eval_fdiv split: option.splits if_splits)
  from e have e': "focal_length c' = focal_length c3 \<and> u c' = u c3 \<and> v c' = v c3 \<and>
      (\<forall>a. h1 c3 = Some a \<longrightarrow> h1 c' = Some a \<and> h2 c' = h2 c3) \<and>
      (h1 c3 = None \<longrightarrow>
         h1 c' = map_option (\<lambda>f. fmul (fabs f) (Fin (3 / 10))) (focal_length c3) \<and>
         (case (focal_length c3, u c3, v c3) of
            (Some f, Some uu, Some vv) \<Rightarrow>
              h2 c' = Some (fmul (fquot vv uu) (fmul (fabs f) (Fin (3 / 10))))
          | _ \<Rightarrow> h2 c' = h2 c3))"
    by (auto simp: lens_default_height_def try_eval_fdiv Let_def split: option.splits if_splits)
  show ?thesis
  proof (cases "h1 c")
    case (Some a)
    with d' m' h' e' show ?thesis by simp
  next
    case n1: None
    show ?thesis
    proof (cases "h2 c")
      case None
      with n1 d' m' h' have "h1 c3 = None" "h2 c3 = None" "u c' = u c3" "v c' = v c3"
        "focal_length c' = focal_length c3"
        using e' by simp_all
      with n1 None e' show ?thesis
        by (cases "focal_length c3"; cases "u c3"; cases "v c3") simp_all
    next
      case (Some b)
      show ?thesis
      proof (cases "u c1 \<noteq> None \<and> v c1 \<noteq> None")
        case True
        then obtain uu vv where uv: "u c1 = Some uu" "v c1 = Some vv" by auto
        with n1 Some d' m' have "h1 c2 = Some (fquot b (fquot vv uu))" "h2 c2 = Some b"
          "u c2 = Some uu" "v c2 = Some vv"
          by simp_all
        with h' e' have "h1 c' = Some (fquot b (fquot vv uu))" "h2 c' = Some b"
          "u c' = Some uu" "v c' = Some vv"
          by simp_all
        with n1 Some show ?thesis by simp
      next
        case False
        with n1 Some d' m' have k2: "h1 c2 = None" "h2 c2 = Some b" "u c2 = u c1" "v c2 = v c1"
          by (auto split: option.splits)
        with h' have k3: "h1 c3 = None" "h2 c3 = Some b" "u c3 = u c1" "v c3 = v c1"
          by simp_all
        with e' False have "h2 c' = Some b" "u c' = u c1" "v c' = v c1"
          "h1 c' = map_option (\<lambda>f. fmul (fabs f) (Fin (3 / 10))) (focal_length c')"
          by (auto split: option.splits)
        with n1 Some False show ?thesis by (auto split: option.splits)
      qed
    qed
  qed
qed

text \<open>
  Claim C6, as the code has it. The default object height is introduced exactly when
  \<open>h1\<close> is still unknown after the distance and magnification steps and \<open>f\<close> is known.
  In terms of the input, for the calculator \<open>c'\<close> that the solving steps end in:
  with no height supplied, \<open>h1\<close> is \<open>0.3 |f|\<close> if \<open>f\<close> is known (supplied or derived)
  and stays unknown otherwise, and \<open>h2\<close> is the magnification of the known \<open>u\<close> and \<open>v\<close>
  times that \<open>h1\<close>; a supplied \<open>h1\<close> stays; with only \<open>h2\<close> supplied, \<open>h2\<close> stays, and
  \<open>h1\<close> is \<open>h2 / m\<close> when \<open>u\<close> and \<open>v\<close> are known and the default \<open>0.3 |f|\<close> when they
  are not. A calculation that succeeds reports the rounded values of \<open>c'\<close>.
\<close>

theorem default_height_synthesis:
  "(mirror_solve (mirror_sign_convention shape (load_values data c)) = Inr c' \<longrightarrow>
      (data ''h1'' = None \<and> data ''h2'' = None \<longrightarrow>
         (case focal_length c' of
            None \<Rightarrow> h1 c' = None \<and> h2 c' = None
          | Some f \<Rightarrow>
              h1 c' = Some (fmul (fabs f) (Fin (3 / 10))) \<and>
              (case (u c', v c') of
                 (Some uu, Some vv) \<Rightarrow>
                   h2 c' = Some (fmul (fneg (fquot vv uu)) (fmul (fabs f) (Fin (3 / 10))))
               | _ \<Rightarrow> h2 c' = None))) \<and>
      (\<forall>a. data ''h1'' = Some a \<longrightarrow> h1 c' = Some a) \<and>
      (\<forall>b. data ''h1'' = None \<and> data ''h2'' = Some b \<longrightarrow>
         h2 c' = Some b \<and>
         (case (u c', v c') of
            (Some uu, Some vv) \<Rightarrow> h1 c' = Some (fquot b (fquot (fneg vv) uu))
          | _ \<Rightarrow> h1 c' = map_option (\<lambda>f. fmul (fabs f) (Fin (3 / 10))) (focal_length c')))) \<and>
   (lens_solve (load_values data c) = Inr c' \<longrightarrow>
      (data ''h1'' = None \<and> data ''h2'' = None \<longrightarrow>
         (case focal_length c' of
            None \<Rightarrow> h1 c' = None \<and> h2 c' = None
          | Some f \<Rightarrow>
              h1 c' = Some (fmul (fabs f) (Fin (3 / 10))) \<and>
              (case (u c', v c') of
                 (Some uu, Some vv) \<Rightarrow>
                   h2 c' = Some (fmul (fquot vv uu) (fmul (fabs f) (Fin (3 / 10))))
               | _ \<Rightarrow> h2 c' = None))) \<and>
      (\<forall>a. data ''h1'' = Some a \<longrightarrow> h1 c' = Some a) \<and>
      (\<forall>b. data ''h1'' = None \<and> data ''h2'' = Some b \<longrightarrow>
         h2 c' = Some b \<and>
         (case (u c', v c') of
            (Some uu, Some vv) \<Rightarrow> h1 c' = Some (fquot b (fquot vv uu))
          | _ \<Rightarrow> h1 c' = map_option (\<lambda>f. fmul (fabs f) (Fin (3 / 10))) (focal_length c')))) \<and>
   (fst (calculate_mirror c data shape) \<longrightarrow>
      (\<exists>c3. mirror_solve (mirror_sign_convention shape (load_values data c)) = Inr c3 \<and>
         focal_length (snd (calculate_mirror c data shape)) =
           map_option round_value (focal_length c3) \<and>
         u (snd (calculate_mirror c data shape)) = map_option round_value (u c3) \<and>
         v (snd (calculate_mirror c data shape)) = map_option round_value (v c3) \<and>
         h1 (snd (calculate_mirror c data shape)) = map_option round_value (h1 c3) \<and>
         h2 (snd (calculate_mirror c data shape)) = map_option round_value (h2 c3))) \<and>
   (fst (calculate_lens c data shape) \<longrightarrow>
      (\<exists>c3. lens_solve (load_values data c) = Inr c3 \<and>
         focal_length (snd (calculate_lens c data shape)) =
           map_option round_value (focal_length c3) \<and>
         u (snd (calculate_lens c data shape)) = map_option round_value (u c3) \<and>
         v (snd (calculate_lens c data shape)) = map_option round_value (v c3) \<and>
         h1 (snd (calculate_lens c data shape)) = map_option round_value (h1 c3) \<and>
         h2 (snd (calculate_lens c data shape)) = map_option round_value (h2 c3)))"
proof (intro conjI)
  show "mirror_solve (mirror_sign_convention shape (load_values data c)) = Inr c' \<longrightarrow>
      (data ''h1'' = None \<and> data ''h2'' = None \<longrightarrow>
         (case focal_length c' of
            None \<Rightarrow> h1 c' = None \<and> h2 c' = None
          | Some f \<Rightarrow>
              h1 c' = Some (fmul (fabs f) (Fin (3 / 10))) \<and>
              (case (u c', v c') of
                 (Some uu, Some vv) \<Rightarrow>
                   h2 c' = Some (fmul (fneg (fquot vv uu)) (fmul (fabs f) (Fin (3 / 10))))
               | _ \<Rightarrow> h2 c' = None))) \<and>
      (\<forall>a. data ''h1'' = Some a \<longrightarrow> h1 c' = Some a) \<and>
      (\<forall>b. data ''h1'' = None \<and> data ''h2'' = Some b \<longrightarrow>
         h2 c' = Some b \<and>
         (case (u c', v c') of
            (Some uu, Some vv) \<Rightarrow> h1 c' = Some (fquot b (fquot (fneg vv) uu))
          | _ \<Rightarrow> h1 c' = map_option (\<lambda>f. fmul (fabs f) (Fin (3 / 10))) (focal_length c')))"
  proof
    assume "mirror_solve (mirror_sign_convention shape (load_values data c)) = Inr c'"
    from mirror_solve_heights [OF this] show "(data ''h1'' = None \<and> data ''h2'' = None \<longrightarrow>
         (case focal_length c' of
            None \<Rightarrow> h1 c' = None \<and> h2 c' = None
          | Some f \<Rightarrow>
              h1 c' = Some (fmul (fabs f) (Fin (3 / 10))) \<and>
              (case (u c', v c') of
                 (Some uu, Some vv) \<Rightarrow>
                   h2 c' = Some (fmul (fneg (fquot vv uu)) (fmul (fabs f) (Fin (3 / 10))))
               | _ \<Rightarrow> h2 c' = None))) \<and>
      (\<forall>a. data ''h1'' = Some a \<longrightarrow> h1 c' = Some a) \<and>
      (\<forall>b. data ''h1'' = None \<and> data ''h2'' = Some b \<longrightarrow>
         h2 c' = Some b \<and>
         (case (u c', v c') of
            (Some uu, Some vv) \<Rightarrow> h1 c' = Some (fquot b (fquot (fneg vv) uu))
          | _ \<Rightarrow> h1 c' = map_option (\<lambda>f. fmul (fabs f) (Fin (3 / 10))) (focal_length c')))"
      by (simp only: mirror_sign_convention_fields load_values_fields)
  qed
  show "lens_solve (load_values data c) = Inr c' \<longrightarrow>
      (data ''h1'' = None \<and> data ''h2'' = None \<longrightarrow>
         (case focal_length c' of
            None \<Rightarrow> h1 c' = None \<and> h2 c' = None
          | Some f \<Rightarrow>
              h1 c' = Some (fmul (fabs f) (Fin (3 / 10))) \<and>
              (case (u c', v c') of
                 (Some uu, Some vv) \<Rightarrow>
                   h2 c' = Some (fmul (fquot vv uu) (fmul (fabs f) (Fin (3 / 10))))
               | _ \<Rightarrow> h2 c' = None))) \<and>
      (\<forall>a. data ''h1'' = Some a \<longrightarrow> h1 c' = Some a) \<and>
      (\<forall>b. data ''h1'' = None \<and> data ''h2'' = Some b \<longrightarrow>
         h2 c' = Some b \<and>
         (case (u c', v c') of
            (Some uu, Some vv) \<Rightarrow> h1 c' = Some (fquot b (fquot vv uu))
          | _ \<Rightarrow> h1 c' = map_option (\<lambda>f. fmul (fabs f) (Fin (3 / 10))) (focal_length c')))"
  proof
    assume "lens_solve (load_values data c) = Inr c'"
    from lens_solve_heights [OF this] show "(data ''h1'' = None \<and> data ''h2'' = None \<longrightarrow>
         (case focal_length c' of
            None \<Rightarrow> h1 c' = None \<and> h2 c' = None
          | Some f \<Rightarrow>
              h1 c' = Some (fmul (fabs f) (Fin (3 / 10))) \<and>
              (case (u c', v c') of
                 (Some uu, Some vv) \<Rightarrow>
                   h2 c' = Some (fmul (fquot vv uu) (fmul (fabs f) (Fin (3 / 10))))
               | _ \<Rightarrow> h2 c' = None))) \<and>
      (\<forall>a. data ''h1'' = Some a \<longrightarrow> h1 c' = Some a) \<and>
      (\<forall>b. data ''h1'' = None \<and> data ''h2'' = Some b \<longrightarrow>
         h2 c' = Some b \<and>
         (case (u c', v c') of
            (Some uu, Some vv) \<Rightarrow> h1 c' = Some (fquot b (fquot vv uu))
          | _ \<Rightarrow> h1 c' = map_option (\<lambda>f. fmul (fabs f) (Fin (3 / 10))) (focal_length c')))"
      by (simp only: load_values_fields)
  qed
  show "fst (calculate_mirror c data shape) \<longrightarrow>
      (\<exists>c3. mirror_solve (mirror_sign_convention shape (load_values data c)) = Inr c3 \<and>
         focal_length (snd (calculate_mirror c data shape)) =
           map_option round_value (focal_length c3) \<and>
         u (snd (calculate_mirror c data shape)) = map_option round_value (u c3) \<and>
         v (snd (calculate_mirror c data shape)) = map_option round_value (v c3) \<and>
         h1 (snd (calculate_mirror c data shape)) = map_option round_value (h1 c3) \<and>
         h2 (snd (calculate_mirror c data shape)) = map_option round_value (h2 c3))"
    using mirror_reports_inputs [of c data shape] by auto
  show "fst (calculate_lens c data shape) \<longrightarrow>
      (\<exists>c3. lens_solve (load_values data c) = Inr c3 \<and>
         focal_length (snd (calculate_lens c data shape)) =
           map_option round_value (focal_length c3) \<and>
         u (snd (calculate_lens c data shape)) = map_option round_value (u c3) \<and>
         v (snd (calculate_lens c data shape)) = map_option round_value (v c3) \<and>
         h1 (snd (calculate_lens c data shape)) = map_option round_value (h1 c3) \<and>
         h2 (snd (calculate_lens c data shape)) = map_option round_value (h2 c3))"
    using lens_reports_inputs [of c data shape] by auto
qed

theorem default_height_synthesis_witness:
  "mirror_solve (mirror_sign_convention (Some ''concave'')
       (load_values [''focal_length'' \<mapsto> Fin (- 50), ''u'' \<mapsto> Fin (- 20)] new_calculator))
   = Inr (new_calculator\<lparr>focal_length := Some (Fin (- 50)), u := Some (Fin (- 20)),
            v := Some (Fin (100 / 3)), h1 := Some (Fin 15), h2 := Some (Fin 25)\<rparr>) \<and>
   Some (Fin 15) = Some (fmul (fabs (Fin (- 50))) (Fin (3 / 10))) \<and>
   Some (Fin 25) =
     Some (fmul (fneg (fquot (Fin (100 / 3)) (Fin (- 20)))) (fmul (fabs (Fin (- 50))) (Fin (3 / 10))))"
proof -
  have s: "mirror_solve (mirror_sign_convention (Some ''concave'')
       (load_values [''focal_length'' \<mapsto> Fin (- 50), ''u'' \<mapsto> Fin (- 20)] new_calculator))
   = Inr (new_calculator\<lparr>focal_length := Some (Fin (- 50)), u := Some (Fin (- 20)),
            v := Some (Fin (100 / 3)), h1 := Some (Fin 15), h2 := Some (Fin 25)\<rparr>)"
    by (simp add: float_defs mirror_defs finish_defs new_calculator_def Let_def)
  show ?thesis
    using s default_height_synthesis [of "Some ''concave''"
        "[''focal_length'' \<mapsto> Fin (- 50), ''u'' \<mapsto> Fin (- 20)]" new_calculator
        "new_calculator\<lparr>focal_length := Some (Fin (- 50)), u := Some (Fin (- 20)),
            v := Some (Fin (100 / 3)), h1 := Some (Fin 15), h2 := Some (Fin 25)\<rparr>"]
    by simp
qed

text \<open>
  Claim C6 as stated fails for \<open>f\<close> and \<open>h2\<close> supplied alone: a height was supplied, yet
  the default \<open>h1 = 0.3 \<sqdot> 50 = 15\<close> is introduced beside the supplied \<open>h2 = 5\<close>.
\<close>

theorem default_height_beside_supplied_h2:
  "calculate (Some ''mirror'') (Some ''concave'')
     [''focal_length'' \<mapsto> Fin (- 50), ''h2'' \<mapsto> Fin 5]
   = Success
       \<lparr>r_focal_length = JNumber (Fin (- 50)), r_u = JNull, r_v = JNull,
        r_h1 = JNumber (Fin 15), r_h2 = JNumber (Fin 5)\<rparr>
       None [''Using absolute value of focal length for concave mirror'']"
  by (simp add: calculate_def float_defs validate_defs mirror_defs finish_defs Let_def)

section \<open>The round trip of the mirror formula\<close>

lemma far_not_equal:
  assumes "\<not> flt (fabs (fsub (Fin x) (Fin g))) eps"
  shows "x - g \<noteq> 0"
  using assms by (auto simp: fsub_def eps_def)

lemma mirror_formula_inverse:
  fixes x g :: real
  assumes "x \<noteq> 0" and "x - g \<noteq> 0"
  shows "x + g * x / (x - g) \<noteq> 0" and "x * (g * x / (x - g)) / (x + g * x / (x - g)) = g"
proof -
  have s: "x + g * x / (x - g) = x * x / (x - g)"
    using assms by (simp add: field_simps)
  with assms show "x + g * x / (x - g) \<noteq> 0" by simp
  have "x * (g * x / (x - g)) / (x + g * x / (x - g)) = (g * (x * x) / (x - g)) / (x * x / (x - g))"
    by (simp add: s mult_ac)
  also have "\<dots> = g" using assms by simp
  finally show "x * (g * x / (x - g)) / (x + g * x / (x - g)) = g" .
qed

lemma mirror_solve_image:
  assumes "focal_length c = Some (Fin g)" and "u c = Some (Fin x)" and "v c = None"
    and "h1 c = None" and "h2 c = None"
    and "x \<noteq> 0" and "\<not> flt (fabs (fsub (Fin x) (Fin g))) eps"
  shows "\<exists>c3. mirror_solve c = Inr c3 \<and> focal_length c3 = Some (Fin g) \<and>
           u c3 = Some (Fin x) \<and> v c3 = Some (Fin (g * x / (x - g)))"
proof -
  from assms(7) have "x - g \<noteq> 0" by (rule far_not_equal)
  with assms show ?thesis
    by (simp add: mirror_solve_def mirror_distances_def mirror_magnification_def
        mirror_heights_def mirror_default_height_def try_eval_fdiv fsub_def Let_def)
qed

lemma mirror_solve_focal_length:
  assumes "focal_length c = None" and "u c = Some (Fin x)"
    and "v c = Some (Fin (g * x / (x - g)))" and "h1 c = None" and "h2 c = None"
    and "x \<noteq> 0" and "x - g \<noteq> 0"
  shows "\<exists>c3. mirror_solve c = Inr c3 \<and> focal_length c3 = Some (Fin g) \<and>
           u c3 = Some (Fin x) \<and> v c3 = Some (Fin (g * x / (x - g)))"
proof -
  note inv = mirror_formula_inverse [OF assms(6) assms(7)]
  have d: "mirror_distances c = Inr (c\<lparr>focal_length := Some (Fin g)\<rparr>)"
    using assms(1-3) inv by (simp add: mirror_distances_def try_eval_fdiv)
  show ?thesis
    using assms(2-6)
    by (simp add: mirror_solve_def d mirror_magnification_def
        mirror_heights_def mirror_default_height_def try_eval_fdiv Let_def)
qed

lemma round_half_even_near: "\<bar>of_int (round_half_even y) - y\<bar> \<le> 1 / 2"
proof -
  have "of_int \<lfloor>y\<rfloor> \<le> y" and "y < of_int \<lfloor>y\<rfloor> + 1" by linarith+
  then show ?thesis
    by (auto simp: round_half_even_def Let_def abs_le_iff)
qed

lemma round_value_near:
  "\<exists>r. round_value (Fin g) = Fin r \<and> \<bar>r - g\<bar> \<le> 1 / 2000"
proof -
  let ?r = "of_int (round_half_even (g * 1000)) / 1000 :: real"
  have "\<bar>of_int (round_half_even (g * 1000)) - g * 1000\<bar> \<le> 1 / 2"
    by (rule round_half_even_near)
  then have "\<bar>?r - g\<bar> \<le> 1 / 2000" by (simp add: abs_le_iff field_simps)
  moreover have "round_value (Fin g) = Fin ?r" by (simp add: round_value_def)
  ultimately show ?thesis by blast
qed




end
